theory Spec2Isabelle
  imports Complex_Main "HOL-Library.Word" "HOL-Library.Log_Nat"
begin

section \<open>Kekopoly session and state-coordination core\<close>

text \<open>
  A shallow embedding of the parts of the Kekopoly client (\<^verbatim>\<open>socketService.js\<close>,
  \<^verbatim>\<open>stateAdapterMiddleware.js\<close>), of the backend authentication code
  (\<^verbatim>\<open>jwt.go\<close>, \<^verbatim>\<open>auth_handler.go\<close>, the Solana validator) and of the priority
  migration script, followed by the properties of the specification stated over them.
  Mutable JavaScript objects become records that are passed and returned, exceptions
  become values, and library calls that are not part of the repository are parameters.
\<close>

subsection \<open>JavaScript numbers\<close>

text \<open>
  A JavaScript number is an IEEE 754 double: a finite value, an infinity or NaN. Finite
  values are kept as rationals; the sign of zero, which nothing here can observe, is
  dropped. \<open>round_double\<close> is the rounding every arithmetic operation ends with: to
  the nearest value with a 53-bit significand, ties to the even significand, with
  gradual underflow (no exponent below \<open>-1074\<close>) and overflow to infinity from
  \<open>2^1024\<close> on.
\<close>

datatype number = Finite rat | PosInfinity | NegInfinity | NaN

definition pow2 :: "int \<Rightarrow> rat" where
  "pow2 e = (if 0 \<le> e then 2 ^ nat e else 1 / 2 ^ nat (- e))"

text \<open>For \<open>x > 0\<close>, the exponent \<open>e\<close> with \<open>2^e \<le> x < 2^(e+1)\<close>.\<close>

definition floor_log2 :: "rat \<Rightarrow> int" where
  "floor_log2 x =
     (case quotient_of x of
        (p, q) \<Rightarrow>
          (let d = bitlen p - bitlen q
           in if of_int q * pow2 d \<le> of_int p then d else d - 1))"

definition round_half_even :: "rat \<Rightarrow> int" where
  "round_half_even x =
     (let f = \<lfloor>x\<rfloor>; r = x - of_int f
      in if r < 1 / 2 then f
         else if 1 / 2 < r then f + 1
         else if even f then f else f + 1)"

definition round_double :: "rat \<Rightarrow> number" where
  "round_double x =
     (if x = 0 then Finite 0
      else
        (let e = max (floor_log2 \<bar>x\<bar> - 52) (- 1074);
             y = of_int (round_half_even (x / pow2 e)) * pow2 e
         in if 2 ^ 1024 \<le> \<bar>y\<bar> then (if 0 < x then PosInfinity else NegInfinity)
            else Finite y))"

text \<open>The product \<^verbatim>\<open>a * b\<close> of a finite number \<open>a\<close> and a number \<open>b\<close>.\<close>

definition js_times :: "rat \<Rightarrow> number \<Rightarrow> number" where
  "js_times a b =
     (case b of
        Finite y \<Rightarrow> round_double (a * y)
      | PosInfinity \<Rightarrow> (if a = 0 then NaN else if 0 < a then PosInfinity else NegInfinity)
      | NegInfinity \<Rightarrow> (if a = 0 then NaN else if 0 < a then NegInfinity else PosInfinity)
      | NaN \<Rightarrow> NaN)"

text \<open>
  \<^verbatim>\<open>Math.pow\<close> belongs to the engine. ECMAScript fixes its value for an exponent of
  zero and otherwise asks for an approximation of the power, so the last bit of the
  result is the engine's choice when the power is not itself a double (as for
  \<open>1.5^34\<close>, which lies halfway between two doubles). It is therefore a parameter
  \<open>pow\<close> of the functions that call it, applied to the base and to the exponent,
  which is a natural number here. \<open>correctly_rounded_pow\<close> is one such engine.
\<close>

type_synonym math_pow = "rat \<Rightarrow> nat \<Rightarrow> number"

definition correctly_rounded_pow :: math_pow where
  "correctly_rounded_pow x k = round_double (x ^ k)"

subsection \<open>Reconnection settings and navigation flags of \<^verbatim>\<open>SocketService\<close>\<close>

text \<open>
  The class fields that \<^verbatim>\<open>handleDisconnect\<close> reads and writes. Delays are
  milliseconds; \<open>reconnectInterval\<close> is a finite double. \<open>savedIsNavigating\<close> is the
  entry \<^verbatim>\<open>connectionState['isNavigating']\<close>, absent until \<^verbatim>\<open>saveState\<close> writes it.
\<close>

record socket_service =
  reconnectAttempts :: nat
  maxReconnectAttempts :: nat
  reconnectInterval :: rat
  isNavigating :: bool
  preserveConnection :: bool
  isTransitioningToGame :: bool
  savedIsNavigating :: "bool option"

definition initial_service :: socket_service where
  "initial_service =
     \<lparr>reconnectAttempts = 0, maxReconnectAttempts = 5, reconnectInterval = 1000,
      isNavigating = False, preserveConnection = False, isTransitioningToGame = False,
      savedIsNavigating = None\<rparr>"

text \<open>\<^verbatim>\<open>loadState('isNavigating', false)\<close>: the stored value, or the default.\<close>

definition loadState_isNavigating :: "socket_service \<Rightarrow> bool" where
  "loadState_isNavigating s = (case savedIsNavigating s of None \<Rightarrow> False | Some b \<Rightarrow> b)"

text \<open>
  What \<^verbatim>\<open>handleDisconnect\<close> schedules: an immediate reconnection after a navigation
  (\<^verbatim>\<open>setTimeout(..., 100)\<close>), a reconnection after the backoff delay (the number
  \<^verbatim>\<open>this.reconnectInterval * Math.pow(1.5, this.reconnectAttempts - 1)\<close> handed to
  \<^verbatim>\<open>setTimeout\<close>), nothing after a clean close, or the final
  \<^verbatim>\<open>onConnectionChange('failed')\<close>. The scheduled callback itself is asynchronous and
  not modelled: it calls \<^verbatim>\<open>connect\<close>, and when that promise is rejected, saved player
  data exist and the counter is below the cap, it calls \<^verbatim>\<open>connect\<close> once more one
  second later without them.
\<close>

datatype reconnect_action =
    NavigationReconnect rat
  | BackoffReconnect number
  | CleanNoReconnect
  | GiveUp

definition handleDisconnect ::
  "math_pow \<Rightarrow> bool \<Rightarrow> socket_service \<Rightarrow> socket_service \<times> reconnect_action" where
  "handleDisconnect pow wasClean s =
     (if isNavigating s \<or> preserveConnection s \<or> loadState_isNavigating s then
        (s\<lparr>reconnectAttempts := 0\<rparr>, NavigationReconnect 100)
      else if \<not> wasClean \<and> reconnectAttempts s < maxReconnectAttempts s then
        (let s' = s\<lparr>reconnectAttempts := reconnectAttempts s + 1\<rparr>
         in (s', BackoffReconnect
                   (js_times (reconnectInterval s') (pow (3 / 2) (reconnectAttempts s' - 1)))))
      else if wasClean then (s, CleanNoReconnect)
      else (s, GiveUp))"

text \<open>
  A run of unclean closes with no successful connection in between (a successful
  \<^verbatim>\<open>onopen\<close> would reset the counter): the service after \<open>n\<close> of them, and the
  action the \<open>n\<close>-th one schedules.
\<close>

fun after_unclean :: "math_pow \<Rightarrow> nat \<Rightarrow> socket_service \<Rightarrow> socket_service" where
  "after_unclean pow 0 s = s"
| "after_unclean pow (Suc n) s = fst (handleDisconnect pow False (after_unclean pow n s))"

definition nth_unclean_action :: "math_pow \<Rightarrow> nat \<Rightarrow> socket_service \<Rightarrow> reconnect_action" where
  "nth_unclean_action pow n s = snd (handleDisconnect pow False (after_unclean pow (n - 1) s))"

definition no_navigation :: "socket_service \<Rightarrow> bool" where
  "no_navigation s \<longleftrightarrow>
     \<not> isNavigating s \<and> \<not> preserveConnection s \<and> \<not> loadState_isNavigating s"

subsection \<open>The disconnection and forfeiture timer\<close>

text \<open>
  The backend's disconnection timer is described in \<^verbatim>\<open>kekopoly_architecture.md\<close>
  (a player is marked DISCONNECTED, a 3-minute countdown starts, a reconnection within
  it restores ACTIVE, its expiry gives FORFEITED and the player cannot rejoin), but its
  code is not among the sources.
\<close>

datatype session_state = CONNECTING | ACTIVE | GRACE | FORFEITED | CLOSED

record session =
  sess_state :: session_state
  countdown :: nat

datatype timer_event = TransportLoss | Reconnected | Elapsed nat

definition grace_seconds :: nat where
  "grace_seconds = 180"

definition tick_seconds :: nat where
  "tick_seconds = 30"

text \<open>
  Modelled from the spec: the per-player state machine of the Disconnection/Forfeiture
  Timer (section 4.2), whose implementation is missing from the sources. ACTIVE goes to
  GRACE on transport loss with the countdown at its default; GRACE returns to ACTIVE on
  reconnection and goes to FORFEITED once the elapsed time uses up the countdown; a
  duplicate loss signal in GRACE does not restart the countdown; FORFEITED is final.
  Time is counted in whole seconds.
\<close>

fun timer_step :: "timer_event \<Rightarrow> session \<Rightarrow> session" where
  "timer_step ev s =
     (case sess_state s of
        ACTIVE \<Rightarrow>
          (case ev of
             TransportLoss \<Rightarrow> s\<lparr>sess_state := GRACE, countdown := grace_seconds\<rparr>
           | _ \<Rightarrow> s)
      | GRACE \<Rightarrow>
          (case ev of
             TransportLoss \<Rightarrow> s
           | Reconnected \<Rightarrow> s\<lparr>sess_state := ACTIVE\<rparr>
           | Elapsed d \<Rightarrow>
               (if countdown s \<le> d then s\<lparr>sess_state := FORFEITED, countdown := 0\<rparr>
                else s\<lparr>countdown := countdown s - d\<rparr>))
      | _ \<Rightarrow> s)"

text \<open>
  A run of the timer: the events of one player in the order in which they arrive.
  \<open>elapsed_total\<close> is the time that passes during a run, and \<open>ticks k\<close> is a run of
  \<open>k\<close> countdown ticks.
\<close>

fun run_timer :: "timer_event list \<Rightarrow> session \<Rightarrow> session" where
  "run_timer [] s = s"
| "run_timer (e # es) s = run_timer es (timer_step e s)"

fun elapsed_total :: "timer_event list \<Rightarrow> nat" where
  "elapsed_total [] = 0"
| "elapsed_total (e # es) = (case e of Elapsed d \<Rightarrow> d | _ \<Rightarrow> 0) + elapsed_total es"

definition ticks :: "nat \<Rightarrow> timer_event list" where
  "ticks k = replicate k (Elapsed tick_seconds)"

subsection \<open>The priority migration script\<close>

text \<open>
  The script rewrites \<^verbatim>\<open>hub.go\<close> with four \<^verbatim>\<open>sed -i 's/PATTERN/REPLACEMENT/g'\<close>
  commands, one after the other. Each pattern is a basic regular expression in which
  only the dots are escaped, so it matches one literal string; no replacement contains
  \<^verbatim>\<open>&\<close> or a back-reference. \<open>replace_all\<close> is that substitution on one line:
  every non-overlapping occurrence, leftmost first.
\<close>

function replace_all :: "string \<Rightarrow> string \<Rightarrow> string \<Rightarrow> string" where
  "replace_all pat repl [] = []"
| "replace_all pat repl (c # cs) =
     (if pat \<noteq> [] \<and> take (length pat) (c # cs) = pat
      then repl @ replace_all pat repl (drop (length pat) (c # cs))
      else c # replace_all pat repl cs)"
  by pat_completeness auto
termination
  by (relation "measure (\<lambda>(pat, repl, s). length s)") auto

datatype priority = PriorityHigh | PriorityNormal | PriorityLow

definition send_call :: "string \<Rightarrow> string \<Rightarrow> string" where
  "send_call game payload = ''c.hub.SendToPlayer('' @ game @ '', c.playerID, '' @ payload @ '')''"

definition priority_name :: "priority \<Rightarrow> string" where
  "priority_name p =
     (case p of PriorityHigh \<Rightarrow> ''PriorityHigh'' | PriorityNormal \<Rightarrow> ''PriorityNormal''
      | PriorityLow \<Rightarrow> ''PriorityLow'')"

definition priority_call :: "string \<Rightarrow> string \<Rightarrow> priority \<Rightarrow> string" where
  "priority_call game payload p =
     ''c.hub.SendToPlayerWithPriority('' @ game @ '', c.playerID, '' @ payload @ '', ''
       @ priority_name p @ '')''"

text \<open>The four substitutions, in the order of the script.\<close>

definition migrate_line :: "string \<Rightarrow> string" where
  "migrate_line l =
     replace_all (send_call ''gameID'' ''confirmationJSON'')
         (priority_call ''gameID'' ''confirmationJSON'' PriorityNormal)
       (replace_all (send_call ''c.gameID'' ''responseJSON'')
           (priority_call ''c.gameID'' ''responseJSON'' PriorityNormal)
         (replace_all (send_call ''c.gameID'' ''ackBytes'')
             (priority_call ''c.gameID'' ''ackBytes'' PriorityNormal)
           (replace_all (send_call ''c.gameID'' ''errorJSON'')
               (priority_call ''c.gameID'' ''errorJSON'' PriorityHigh) l)))"

text \<open>
  Two checks on a pattern and a text \<open>t\<close> that stands somewhere in a line.
  \<open>no_reach pat t\<close>: no occurrence of the pattern that begins before \<open>t\<close> extends
  into it. \<open>no_start pat t\<close>: no occurrence of the pattern begins inside \<open>t\<close>.
  Together (\<open>apart\<close>) they say that the substitution of the pattern never touches
  \<open>t\<close>, whatever surrounds it. \<open>occurs pat l\<close>: the pattern occurs in the line.
\<close>

definition no_reach :: "string \<Rightarrow> string \<Rightarrow> bool" where
  "no_reach pat t \<longleftrightarrow>
     (\<forall>k \<in> set [1..<length pat]. take (length t) (drop (length pat - k) pat) \<noteq> take k t)"

fun no_start :: "string \<Rightarrow> string \<Rightarrow> bool" where
  "no_start pat [] = True"
| "no_start pat (c # cs) =
     (take (length pat) (c # cs) \<noteq> take (length (c # cs)) pat \<and> no_start pat cs)"

definition apart :: "string \<Rightarrow> string \<Rightarrow> bool" where
  "apart pat t \<longleftrightarrow> pat \<noteq> [] \<and> no_reach pat t \<and> no_start pat t"

fun occurs :: "string \<Rightarrow> string \<Rightarrow> bool" where
  "occurs pat [] = (pat = [])"
| "occurs pat (c # cs) = (take (length pat) (c # cs) = pat \<or> occurs pat cs)"

subsection \<open>Go string helpers\<close>

text \<open>
  \<^verbatim>\<open>strings.Split(s, sep)\<close> for a one-byte separator (the empty string gives one empty
  part), \<^verbatim>\<open>strings.ToLower\<close> on ASCII letters, and \<^verbatim>\<open>strings.Trim(s, cutset)\<close>.
\<close>

fun split_on :: "char \<Rightarrow> string \<Rightarrow> string list" where
  "split_on sep [] = [[]]"
| "split_on sep (x # xs) =
     (if x = sep then [] # split_on sep xs
      else (case split_on sep xs of
              [] \<Rightarrow> [[x]]
            | w # ws \<Rightarrow> (x # w) # ws))"

definition ascii_lower :: "char \<Rightarrow> char" where
  "ascii_lower c =
     (if 65 \<le> (of_char c :: nat) \<and> (of_char c :: nat) \<le> 90
      then char_of (of_char c + 32 :: nat) else c)"

definition to_lower :: "string \<Rightarrow> string" where
  "to_lower s = map ascii_lower s"

definition trim_cutset :: "string \<Rightarrow> string \<Rightarrow> string" where
  "trim_cutset cutset s =
     rev (dropWhile (\<lambda>c. c \<in> set cutset) (rev (dropWhile (\<lambda>c. c \<in> set cutset) s)))"

subsection \<open>JSON Web Tokens (\<^verbatim>\<open>jwt.go\<close>)\<close>

datatype signing_method = HS256 | HS384 | HS512 | RS256 | ES256 | NoneMethod

text \<open>The type test \<^verbatim>\<open>token.Method.(*jwt.SigningMethodHMAC)\<close>.\<close>

definition is_hmac :: "signing_method \<Rightarrow> bool" where
  "is_hmac m = (case m of HS256 \<Rightarrow> True | HS384 \<Rightarrow> True | HS512 \<Rightarrow> True | _ \<Rightarrow> False)"

text \<open>
  \<^verbatim>\<open>Claims\<close>: the two custom fields and the registered claims the code sets. A
  \<^verbatim>\<open>NumericDate\<close> is a whole number of seconds since the epoch.
\<close>

record claims =
  UserID :: string
  WalletAddress :: string
  ExpiresAt :: "int option"
  IssuedAt :: "int option"

text \<open>
  The golang-jwt library is not part of the repository. Its compact serialisation
  (base64url of the JSON header and claims, joined with the signature by dots), the
  inverse parser and the HMAC are parameters: \<open>compact m c sg\<close> is the token string
  for method \<open>m\<close>, claims \<open>c\<close> and signature \<open>sg\<close>; \<open>hmac_sign m key c\<close> is the
  signature the method computes with \<open>key\<close> over the header and claims.
\<close>

record jwt_lib =
  compact :: "signing_method \<Rightarrow> claims \<Rightarrow> string \<Rightarrow> string"
  parse_compact :: "string \<Rightarrow> (signing_method \<times> claims \<times> string) option"
  hmac_sign :: "signing_method \<Rightarrow> string \<Rightarrow> claims \<Rightarrow> string"

datatype parse_error = TokenMalformed | TokenUnverifiable | TokenSignatureInvalid | TokenExpired

record parsed_token =
  tok_method :: signing_method
  tok_claims :: claims
  tok_valid :: bool

text \<open>
  \<^verbatim>\<open>jwt.ParseWithClaims\<close> as the library documents it: decode the three parts, ask the
  key function for the key, verify the signature, then validate the claims, where an
  expiry that is present must lie strictly after the current time. Times are
  nanoseconds since the epoch.
\<close>

definition ParseWithClaims ::
  "jwt_lib \<Rightarrow> (signing_method \<Rightarrow> string option) \<Rightarrow> int \<Rightarrow> string \<Rightarrow> parse_error + parsed_token" where
  "ParseWithClaims lib keyFunc now tokenString =
     (case parse_compact lib tokenString of
        None \<Rightarrow> Inl TokenMalformed
      | Some (m, c, sg) \<Rightarrow>
          (case keyFunc m of
             None \<Rightarrow> Inl TokenUnverifiable
           | Some key \<Rightarrow>
               if sg \<noteq> hmac_sign lib m key c then Inl TokenSignatureInvalid
               else if (case ExpiresAt c of None \<Rightarrow> False | Some e \<Rightarrow> \<not> now < e * 1000000000)
                 then Inl TokenExpired
               else Inr \<lparr>tok_method = m, tok_claims = c, tok_valid = True\<rparr>))"

text \<open>The key function of the middleware: the secret, for an HMAC method only.\<close>

definition keyFunc :: "string \<Rightarrow> signing_method \<Rightarrow> string option" where
  "keyFunc secret m = (if is_hmac m then Some secret else None)"

text \<open>
  What the middleware stores in the request context before it calls the next handler.
\<close>

record auth_context =
  ctx_userID :: "string option"
  ctx_walletAddress :: "string option"

text \<open>
  \<^verbatim>\<open>JWTMiddleware(secret)\<close> applied to a request whose \<^verbatim>\<open>Authorization\<close> header is
  \<open>authHeader\<close> (empty when the header is missing) at time \<open>now\<close>. \<open>Inl (code, msg)\<close>
  is the \<^verbatim>\<open>echo.NewHTTPError\<close> returned; \<open>Inr ctx\<close> means the next handler runs with
  context \<open>ctx\<close>. The type assertion on the claims cannot fail, since the parser was
  given a \<^verbatim>\<open>Claims\<close> value to fill.
\<close>

definition JWTMiddleware :: "jwt_lib \<Rightarrow> string \<Rightarrow> int \<Rightarrow> string \<Rightarrow> (nat \<times> string) + auth_context" where
  "JWTMiddleware lib secret now authHeader =
     (if authHeader = [] then Inl (401, ''missing authorization header'')
      else
        (case split_on CHR '' '' authHeader of
           [scheme, tokenString] \<Rightarrow>
             if to_lower scheme \<noteq> ''bearer''
             then Inl (401, ''invalid authorization header format'')
             else
               (case ParseWithClaims lib (keyFunc secret) now tokenString of
                  Inl err \<Rightarrow> Inl (401, ''invalid or expired token'')
                | Inr token \<Rightarrow>
                    if \<not> tok_valid token then Inl (401, ''invalid token'')
                    else Inr \<lparr>ctx_userID = Some (UserID (tok_claims token)),
                              ctx_walletAddress =
                                (if WalletAddress (tok_claims token) \<noteq> []
                                 then Some (WalletAddress (tok_claims token)) else None)\<rparr>)
         | _ \<Rightarrow> Inl (401, ''invalid authorization header format'')))"

text \<open>
  \<^verbatim>\<open>GenerateJWT\<close>. \<^verbatim>\<open>time.Duration(expirationHours) * time.Hour\<close> is a product of
  64-bit integers and wraps around; \<^verbatim>\<open>jwt.NewNumericDate\<close> truncates to the second.
  \<open>now_exp\<close> and \<open>now_iat\<close> are the two readings of \<^verbatim>\<open>time.Now()\<close>. Signing with an
  HMAC method and a byte-slice key does not fail, so the error result is always nil and
  is left out.
\<close>

definition expiration_duration :: "int \<Rightarrow> int" where
  "expiration_duration expirationHours =
     sint (word_of_int expirationHours * 3600000000000 :: 64 word)"

definition generated_claims :: "string \<Rightarrow> string \<Rightarrow> int \<Rightarrow> int \<Rightarrow> int \<Rightarrow> claims" where
  "generated_claims userID walletAddress expirationHours now_exp now_iat =
     \<lparr>UserID = userID, WalletAddress = walletAddress,
      ExpiresAt = Some ((now_exp + expiration_duration expirationHours) div 1000000000),
      IssuedAt = Some (now_iat div 1000000000)\<rparr>"

definition GenerateJWT :: "jwt_lib \<Rightarrow> string \<Rightarrow> string \<Rightarrow> string \<Rightarrow> int \<Rightarrow> int \<Rightarrow> int \<Rightarrow> string" where
  "GenerateJWT lib userID walletAddress secret expirationHours now_exp now_iat =
     (let c = generated_claims userID walletAddress expirationHours now_exp now_iat
      in compact lib HS256 c (hmac_sign lib HS256 secret c))"

subsection \<open>Wallet sign-in (\<^verbatim>\<open>SolanaValidator\<close>, \<^verbatim>\<open>AuthHandler.WalletConnect\<close>)\<close>

type_synonym bytes = "8 word list"

text \<open>
  The Solana, hex and base64 libraries and \<^verbatim>\<open>fmt.Sscanf\<close> are parameters:
  \<open>None\<close> is their error result.
\<close>

record crypto =
  PublicKeyFromBase58 :: "string \<Rightarrow> bytes option"
  hex_DecodeString :: "string \<Rightarrow> bytes option"
  base64_DecodeString :: "string \<Rightarrow> bytes option"
  Sscanf_byte :: "string \<Rightarrow> 8 word option"
  signature_Verify :: "bytes \<Rightarrow> bytes \<Rightarrow> string \<Rightarrow> bool"

text \<open>\<open>signature_Verify pubKey sig message\<close> is \<^verbatim>\<open>solanaSig.Verify(pubKey, messageBytes)\<close>.\<close>

fun sequence_option :: "'a option list \<Rightarrow> 'a list option" where
  "sequence_option [] = Some []"
| "sequence_option (None # xs) = None"
| "sequence_option (Some x # xs) =
     (case sequence_option xs of None \<Rightarrow> None | Some ys \<Rightarrow> Some (x # ys))"

definition parseBufferSignature :: "crypto \<Rightarrow> string \<Rightarrow> bytes option" where
  "parseBufferSignature cr bufferStr =
     (let s = filter (\<lambda>c. c \<noteq> CHR '' '' \<and> c \<noteq> CHR 0x0A \<and> c \<noteq> CHR 0x09)
                (trim_cutset ''[]'' bufferStr);
          parts = split_on CHR '','' s
      in if length parts \<noteq> 64 then None
         else sequence_option (map (Sscanf_byte cr) parts))"

record validator =
  enabled :: bool
  client_initialized :: bool

definition NewSolanaValidator :: validator where
  "NewSolanaValidator = \<lparr>enabled = True, client_initialized = True\<rparr>"

definition decode_signature :: "crypto \<Rightarrow> string \<Rightarrow> string \<Rightarrow> string + bytes" where
  "decode_signature cr format signature =
     (if to_lower format = ''hex'' then
        (case hex_DecodeString cr signature of
           None \<Rightarrow> Inl ''invalid hex signature'' | Some b \<Rightarrow> Inr b)
      else if to_lower format = ''base64'' then
        (case base64_DecodeString cr signature of
           None \<Rightarrow> Inl ''invalid base64 signature'' | Some b \<Rightarrow> Inr b)
      else if to_lower format = ''buffer'' then
        (case parseBufferSignature cr signature of
           None \<Rightarrow> Inl ''invalid buffer signature'' | Some b \<Rightarrow> Inr b)
      else
        (case hex_DecodeString cr signature of
           Some b \<Rightarrow> Inr b
         | None \<Rightarrow>
             (case base64_DecodeString cr signature of
                Some b \<Rightarrow> Inr b
              | None \<Rightarrow>
                  (case parseBufferSignature cr signature of
                     None \<Rightarrow> Inl ''could not parse signature in any format''
                   | Some b \<Rightarrow> Inr b))))"

text \<open>
  \<^verbatim>\<open>VerifySignature\<close> returns \<^verbatim>\<open>(bool, error)\<close>; the error is \<open>None\<close> for nil.
  A disabled validator returns true before it looks at any argument.
\<close>

definition VerifySignature ::
  "crypto \<Rightarrow> validator \<Rightarrow> string \<Rightarrow> string \<Rightarrow> string \<Rightarrow> string \<Rightarrow> bool \<times> string option" where
  "VerifySignature cr v walletAddress message signature format =
     (if \<not> enabled v then (True, None)
      else if \<not> client_initialized v
        then (False, Some ''solana validator client not initialized'')
      else
        (case PublicKeyFromBase58 cr walletAddress of
           None \<Rightarrow> (False, Some ''invalid wallet address'')
         | Some pubKey \<Rightarrow>
             (case decode_signature cr format signature of
                Inl err \<Rightarrow> (False, Some err)
              | Inr signatureBytes \<Rightarrow>
                  if length signatureBytes \<noteq> 64
                  then (False, Some ''invalid signature length'')
                  else (signature_Verify cr pubKey signatureBytes message, None))))"

record config =
  Solana_DevMode :: bool
  JWT_Secret :: string
  JWT_Expiration :: int

record auth_handler =
  cfg :: "config option"
  handler_validator :: "validator option"

text \<open>
  \<^verbatim>\<open>NewAuthHandler\<close>: development mode, or a missing configuration, gives a disabled
  validator.
\<close>

definition NewAuthHandler :: "config option \<Rightarrow> auth_handler" where
  "NewAuthHandler c =
     (case c of
        Some conf \<Rightarrow>
          \<lparr>cfg = c,
           handler_validator =
             Some (NewSolanaValidator\<lparr>enabled := \<not> Solana_DevMode conf\<rparr>)\<rparr>
      | None \<Rightarrow> \<lparr>cfg = c, handler_validator = Some (NewSolanaValidator\<lparr>enabled := False\<rparr>)\<rparr>)"

record wallet_connect_request =
  req_walletAddress :: string
  req_signature :: string
  req_message :: string
  req_format :: string

record auth_response =
  resp_userID :: string
  resp_walletAddress :: string
  resp_token :: string

datatype http_result =
    HTTPError nat string
  | JSONResponse nat auth_response
  | NilPointerPanic

text \<open>
  The signature format: the request field, else the \<^verbatim>\<open>format\<close> query parameter,
  else the form value.
\<close>

definition request_format :: "wallet_connect_request \<Rightarrow> string \<Rightarrow> string \<Rightarrow> string" where
  "request_format r queryFormat formFormat =
     (if req_format r \<noteq> [] then req_format r
      else if queryFormat \<noteq> [] then queryFormat
      else formFormat)"

text \<open>
  \<^verbatim>\<open>WalletConnect\<close>. \<open>req\<close> is the bound request body (\<open>None\<close> when \<^verbatim>\<open>c.Bind\<close>
  fails); \<^verbatim>\<open>c.Validate\<close> enforces the three \<^verbatim>\<open>required\<close> tags; \<open>queryFormat\<close> and
  \<open>formFormat\<close> are the \<^verbatim>\<open>format\<close> query parameter and form value; \<open>newID\<close> is the
  result of \<^verbatim>\<open>uuid.New().String()\<close>. The handler keeps the validator it disabled, so
  the handler is returned with the response. Reading \<^verbatim>\<open>h.cfg.JWT.Secret\<close> with a nil
  configuration is a nil-pointer dereference.
\<close>

definition WalletConnect ::
  "crypto \<Rightarrow> jwt_lib \<Rightarrow> auth_handler \<Rightarrow> wallet_connect_request option \<Rightarrow> string \<Rightarrow> string \<Rightarrow>
   string \<Rightarrow> int \<Rightarrow> int \<Rightarrow> http_result \<times> auth_handler" where
  "WalletConnect cr lib h req queryFormat formFormat newID now_exp now_iat =
     (case req of
        None \<Rightarrow> (HTTPError 400 ''Invalid request body'', h)
      | Some r \<Rightarrow>
          if req_walletAddress r = [] \<or> req_signature r = [] \<or> req_message r = []
          then (HTTPError 400 ''validation failed'', h)
          else
            (let devMode = (case cfg h of None \<Rightarrow> False | Some conf \<Rightarrow> Solana_DevMode conf);
                 v0 = (case handler_validator h of
                         None \<Rightarrow> NewSolanaValidator\<lparr>enabled := False\<rparr>
                       | Some v \<Rightarrow> v);
                 v = (if devMode then v0\<lparr>enabled := False\<rparr> else v0);
                 h' = h\<lparr>handler_validator := Some v\<rparr>;
                 format = request_format r queryFormat formFormat
             in (case VerifySignature cr v (req_walletAddress r) (req_message r)
                        (req_signature r) format of
                   (valid, Some err) \<Rightarrow> (HTTPError 400 (''Invalid signature: '' @ err), h')
                 | (valid, None) \<Rightarrow>
                     if \<not> valid then (HTTPError 401 ''Signature verification failed'', h')
                     else
                       (case cfg h of
                          None \<Rightarrow> (NilPointerPanic, h')
                        | Some conf \<Rightarrow>
                            (JSONResponse 200
                               \<lparr>resp_userID = newID,
                                resp_walletAddress = req_walletAddress r,
                                resp_token =
                                  GenerateJWT lib newID (req_walletAddress r) (JWT_Secret conf)
                                    (JWT_Expiration conf) now_exp now_iat\<rparr>,
                             h')))))"

subsection \<open>What it means for a credential to be verified\<close>

text \<open>
  A bearer credential is verified when the header has the form \<^verbatim>\<open>Bearer TOKEN\<close>, the
  token decodes, it is signed with an HMAC method under the secret, and it has not
  expired. A wallet signature is verified when the address is a public key, the
  signature decodes to 64 bytes and the signature check succeeds on the message.
\<close>

definition bearer_verified :: "jwt_lib \<Rightarrow> string \<Rightarrow> int \<Rightarrow> string \<Rightarrow> bool" where
  "bearer_verified lib secret now authHeader =
     (case split_on CHR '' '' authHeader of
        [scheme, tokenString] \<Rightarrow>
          to_lower scheme = ''bearer'' \<and>
          (case parse_compact lib tokenString of
             None \<Rightarrow> False
           | Some (m, c, sg) \<Rightarrow>
               is_hmac m \<and> sg = hmac_sign lib m secret c \<and>
               (case ExpiresAt c of None \<Rightarrow> True | Some e \<Rightarrow> now < e * 1000000000))
      | _ \<Rightarrow> False)"

definition signature_verified :: "crypto \<Rightarrow> wallet_connect_request \<Rightarrow> string \<Rightarrow> bool" where
  "signature_verified cr r format =
     (case PublicKeyFromBase58 cr (req_walletAddress r) of
        None \<Rightarrow> False
      | Some pubKey \<Rightarrow>
          (case decode_signature cr format (req_signature r) of
             Inl err \<Rightarrow> False
           | Inr signatureBytes \<Rightarrow>
               length signatureBytes = 64 \<and>
               signature_Verify cr pubKey signatureBytes (req_message r)))"

definition required_fields :: "wallet_connect_request \<Rightarrow> bool" where
  "required_fields r \<longleftrightarrow>
     req_walletAddress r \<noteq> [] \<and> req_signature r \<noteq> [] \<and> req_message r \<noteq> []"

text \<open>
  Validation is on when the handler has a configuration that is not in development
  mode and an enabled, initialised validator.
\<close>

definition validation_on :: "auth_handler \<Rightarrow> bool" where
  "validation_on h =
     (case cfg h of
        None \<Rightarrow> False
      | Some conf \<Rightarrow>
          \<not> Solana_DevMode conf \<and>
          (case handler_validator h of
             None \<Rightarrow> False
           | Some v \<Rightarrow> enabled v \<and> client_initialized v))"

definition is_json_response :: "http_result \<Rightarrow> bool" where
  "is_json_response r = (case r of JSONResponse code body \<Rightarrow> True | _ \<Rightarrow> False)"

definition is_rejection :: "http_result \<Rightarrow> bool" where
  "is_rejection r =
     (case r of HTTPError code msg \<Rightarrow> code = 400 \<or> code = 401 | _ \<Rightarrow> False)"

subsection \<open>Sample library instances\<close>

text \<open>
  Concrete stand-ins for the library parameters, used to evaluate the handlers on
  concrete requests: a token codec that knows one token, and a crypto library under
  which no key or signature decodes and no signature verifies.
\<close>

definition sample_claims :: claims where
  "sample_claims = generated_claims ''user-1'' ''wallet-1'' 24 0 0"

definition sample_lib :: jwt_lib where
  "sample_lib =
     \<lparr>compact = (\<lambda>m c sg. ''h.'' @ UserID c @ ''.'' @ sg),
      parse_compact =
        (\<lambda>s. if s = ''h.user-1.secret:user-1''
             then Some (HS256, sample_claims, ''secret:user-1'') else None),
      hmac_sign = (\<lambda>m key c. key @ '':'' @ UserID c)\<rparr>"

definition rejecting_crypto :: crypto where
  "rejecting_crypto =
     \<lparr>PublicKeyFromBase58 = (\<lambda>s. None), hex_DecodeString = (\<lambda>s. None),
      base64_DecodeString = (\<lambda>s. None), Sscanf_byte = (\<lambda>s. None),
      signature_Verify = (\<lambda>pubKey sg message. False)\<rparr>"

definition accepting_crypto :: crypto where
  "accepting_crypto =
     \<lparr>PublicKeyFromBase58 = (\<lambda>s. Some []), hex_DecodeString = (\<lambda>s. Some (replicate 64 0)),
      base64_DecodeString = (\<lambda>s. None), Sscanf_byte = (\<lambda>s. None),
      signature_Verify = (\<lambda>pubKey sg message. message = ''sign me'')\<rparr>"

definition dev_config :: config where
  "dev_config = \<lparr>Solana_DevMode = True, JWT_Secret = ''secret'', JWT_Expiration = 24\<rparr>"

definition prod_config :: config where
  "prod_config = \<lparr>Solana_DevMode = False, JWT_Secret = ''secret'', JWT_Expiration = 24\<rparr>"

definition forged_request :: wallet_connect_request where
  "forged_request =
     \<lparr>req_walletAddress = ''not-a-wallet'', req_signature = ''garbage'',
      req_message = ''anything'', req_format = ''hex''\<rparr>"

definition signed_request :: wallet_connect_request where
  "signed_request =
     \<lparr>req_walletAddress = ''wallet-1'', req_signature = ''00'',
      req_message = ''sign me'', req_format = ''hex''\<rparr>"

subsection \<open>A sample token codec\<close>

text \<open>
  A stand-in for the library's serialisation that decodes every token it produces:
  the method, the four claims and the signature are written as six fields separated
  by dots, strings as the bits of their bytes and dates in binary with a sign. No
  field contains a dot or a space. The stand-in for the HMAC joins the key and the
  two custom claims.
\<close>

definition bit_char :: "bool \<Rightarrow> char" where
  "bit_char b = (if b then CHR ''1'' else CHR ''0'')"

fun enc_char :: "char \<Rightarrow> string" where
  "enc_char (Char a b c d e f g h) = map bit_char [a, b, c, d, e, f, g, h]"

definition enc_str :: "string \<Rightarrow> string" where
  "enc_str s = concat (map enc_char s)"

fun dec_str :: "string \<Rightarrow> string" where
  "dec_str (a # b # c # d # e # f # g # h # rest) =
     Char (a = CHR ''1'') (b = CHR ''1'') (c = CHR ''1'') (d = CHR ''1'')
          (e = CHR ''1'') (f = CHR ''1'') (g = CHR ''1'') (h = CHR ''1'') # dec_str rest"
| "dec_str _ = []"

fun enc_nat :: "nat \<Rightarrow> string" where
  "enc_nat n = (if n = 0 then [] else bit_char (odd n) # enc_nat (n div 2))"

declare enc_nat.simps [simp del]

fun dec_nat :: "string \<Rightarrow> nat" where
  "dec_nat [] = 0"
| "dec_nat (c # cs) = (if c = CHR ''1'' then 1 else 0) + 2 * dec_nat cs"

definition enc_date :: "int option \<Rightarrow> string" where
  "enc_date d =
     (case d of
        None \<Rightarrow> ''n''
      | Some i \<Rightarrow> (if i < 0 then CHR ''m'' else CHR ''p'') # enc_nat (nat \<bar>i\<bar>))"

definition dec_date :: "string \<Rightarrow> int option" where
  "dec_date s =
     (case s of
        [] \<Rightarrow> None
      | c # cs \<Rightarrow>
          if c = CHR ''n'' then None
          else if c = CHR ''m'' then Some (- int (dec_nat cs))
          else Some (int (dec_nat cs)))"

definition enc_method :: "signing_method \<Rightarrow> string" where
  "enc_method m =
     (case m of HS256 \<Rightarrow> ''a'' | HS384 \<Rightarrow> ''b'' | HS512 \<Rightarrow> ''c'' | RS256 \<Rightarrow> ''d''
      | ES256 \<Rightarrow> ''e'' | NoneMethod \<Rightarrow> ''f'')"

definition dec_method :: "string \<Rightarrow> signing_method option" where
  "dec_method s =
     (if s = ''a'' then Some HS256 else if s = ''b'' then Some HS384
      else if s = ''c'' then Some HS512 else if s = ''d'' then Some RS256
      else if s = ''e'' then Some ES256 else if s = ''f'' then Some NoneMethod else None)"

definition codec_lib :: jwt_lib where
  "codec_lib =
     \<lparr>compact = (\<lambda>m c sg.
        enc_method m @ ''.'' @ enc_str (UserID c) @ ''.'' @ enc_str (WalletAddress c) @ ''.''
          @ enc_date (ExpiresAt c) @ ''.'' @ enc_date (IssuedAt c) @ ''.'' @ enc_str sg),
      parse_compact = (\<lambda>s.
        case split_on CHR ''.'' s of
          [m, u, w, e, i, sg] \<Rightarrow>
            (case dec_method m of
               None \<Rightarrow> None
             | Some method \<Rightarrow>
                 Some (method,
                       \<lparr>UserID = dec_str u, WalletAddress = dec_str w,
                        ExpiresAt = dec_date e, IssuedAt = dec_date i\<rparr>,
                       dec_str sg))
        | _ \<Rightarrow> None),
      hmac_sign = (\<lambda>m key c. key @ '':'' @ UserID c @ '':'' @ WalletAddress c)\<rparr>"

subsection \<open>JavaScript values in player objects\<close>

text \<open>
  A property that may be missing is an \<open>option\<close>: \<open>None\<close> is \<^verbatim>\<open>undefined\<close>. The
  operator \<^verbatim>\<open>||\<close> returns its left operand when that is truthy and its right operand
  otherwise; a string is truthy unless it is empty, a number unless it is zero, a
  boolean when it is \<^verbatim>\<open>true\<close>, an array or object always.
\<close>

definition truthy_str :: "string option \<Rightarrow> bool" where
  "truthy_str v = (case v of None \<Rightarrow> False | Some s \<Rightarrow> s \<noteq> [])"

definition or_str :: "string option \<Rightarrow> string option \<Rightarrow> string option" where
  "or_str a b = (if truthy_str a then a else b)"

definition or_bool :: "bool option \<Rightarrow> bool option \<Rightarrow> bool option" where
  "or_bool a b = (if a = Some True then a else b)"

definition or_num :: "int option \<Rightarrow> int option \<Rightarrow> int option" where
  "or_num a b = (case a of None \<Rightarrow> b | Some n \<Rightarrow> if n \<noteq> 0 then a else b)"

definition or_obj :: "'a option \<Rightarrow> 'a option \<Rightarrow> 'a option" where
  "or_obj a b = (case a of None \<Rightarrow> b | Some x \<Rightarrow> a)"

text \<open>\<^verbatim>\<open>x !== undefined ? x : d\<close>\<close>

definition defined_or :: "'a option \<Rightarrow> 'a option \<Rightarrow> 'a option" where
  "defined_or a d = (case a of None \<Rightarrow> d | Some x \<Rightarrow> a)"

text \<open>The default avatar, U+1F464, as its UTF-8 bytes.\<close>

definition bust :: string where
  "bust = [CHR 0xF0, CHR 0x9F, CHR 0x91, CHR 0xA4]"

text \<open>
  A player object, in either slice or in a message. Every player the code stores has
  an id, a string; the empty id stands for a missing one (the code only tests it for
  truthiness before it uses it).
\<close>

record player =
  player_id :: string
  name :: "string option"
  token :: "string option"
  characterToken :: "string option"
  emoji :: "string option"
  color :: "string option"
  position :: "int option"
  balance :: "int option"
  properties :: "string list option"
  inJail :: "bool option"
  jailTurns :: "int option"
  isReady :: "bool option"
  isHost :: "bool option"
  walletAddress :: "string option"
  kekels :: "(int \<times> int \<times> int) option"
  status :: "string option"

definition blank_player :: "string \<Rightarrow> player" where
  "blank_player i =
     \<lparr>player_id = i, name = None, token = None, characterToken = None, emoji = None,
      color = None, position = None, balance = None, properties = None, inJail = None,
      jailTurns = None, isReady = None, isHost = None, walletAddress = None, kekels = None,
      status = None\<rparr>"

subsection \<open>The Redux store\<close>

text \<open>
  \<open>playerSlice_players\<close> is the object \<^verbatim>\<open>state.players.players\<close>, keyed by player id,
  as the list of its entries in enumeration order; \<open>gameSlice_players\<close> is the array
  \<^verbatim>\<open>state.game.players\<close>. \<open>syncInProgress\<close> is the global
  \<^verbatim>\<open>window._isPlayerSyncInProgress\<close>.
\<close>

record store =
  playerSlice_players :: "(string \<times> player) list"
  gameSlice_players :: "player list"
  hostId :: "string option"
  currentPlayer :: "string option"
  gameStarted :: bool
  gamePhase :: string
  gameStatus :: string
  gameMessages :: "(string \<times> string) list"
  syncInProgress :: bool

definition initial_store :: store where
  "initial_store =
     \<lparr>playerSlice_players = [], gameSlice_players = [], hostId = None, currentPlayer = None,
      gameStarted = False, gamePhase = ''setup'', gameStatus = [], gameMessages = [],
      syncInProgress = False\<rparr>"

text \<open>
  The actions the modelled code dispatches. The \<^verbatim>\<open>updates\<close> object of
  \<^verbatim>\<open>updatePlayer\<close> is the function that assigns its properties to a player.
\<close>

datatype action =
    AddPlayer string player
  | UpdatePlayer string "player \<Rightarrow> player"
  | RemovePlayer string
  | SetPlayers "player list" bool
  | MovePlayer string int
  | SetHost string
  | SetCurrentPlayer string
  | SetGameStarted bool
  | SetGamePhase string
  | SyncGameStatus string
  | AddGameMessage string string
  | OtherAction string

fun obj_set :: "string \<Rightarrow> 'a \<Rightarrow> (string \<times> 'a) list \<Rightarrow> (string \<times> 'a) list" where
  "obj_set k v [] = [(k, v)]"
| "obj_set k v ((k', v') # kvs) =
     (if k' = k then (k, v) # kvs else (k', v') # obj_set k v kvs)"

text \<open>
  Modelled from the spec: the reducers of \<^verbatim>\<open>playerSlice\<close> and \<^verbatim>\<open>gameSlice\<close>, which
  are missing from the sources. The roster is held id-keyed (\<^verbatim>\<open>addPlayer\<close> stores a
  record under its id, \<^verbatim>\<open>updatePlayer\<close> assigns the given properties to an existing
  record, \<^verbatim>\<open>removePlayer\<close> deletes it) and as an order-preserving sequence
  (\<^verbatim>\<open>setPlayers\<close> replaces it, \<^verbatim>\<open>movePlayer\<close> sets the position of the entry with
  the id); the room fields \<open>hostId\<close> and the current turn are overwritten by
  \<^verbatim>\<open>setHost\<close> and \<^verbatim>\<open>setCurrentPlayer\<close>.
\<close>

fun reduce :: "action \<Rightarrow> store \<Rightarrow> store" where
  "reduce (AddPlayer k p) s = s\<lparr>playerSlice_players := obj_set k p (playerSlice_players s)\<rparr>"
| "reduce (UpdatePlayer k upd) s =
     (case map_of (playerSlice_players s) k of
        None \<Rightarrow> s
      | Some p \<Rightarrow> s\<lparr>playerSlice_players := obj_set k (upd p) (playerSlice_players s)\<rparr>)"
| "reduce (RemovePlayer k) s =
     s\<lparr>playerSlice_players := filter (\<lambda>kv. fst kv \<noteq> k) (playerSlice_players s)\<rparr>"
| "reduce (SetPlayers ps isSync) s = s\<lparr>gameSlice_players := ps\<rparr>"
| "reduce (MovePlayer k newPosition) s =
     s\<lparr>gameSlice_players :=
         map (\<lambda>p. if player_id p = k then p\<lparr>position := Some newPosition\<rparr> else p)
           (gameSlice_players s)\<rparr>"
| "reduce (SetHost h) s = s\<lparr>hostId := Some h\<rparr>"
| "reduce (SetCurrentPlayer p) s = s\<lparr>currentPlayer := Some p\<rparr>"
| "reduce (SetGameStarted b) s = s\<lparr>gameStarted := b\<rparr>"
| "reduce (SetGamePhase ph) s = s\<lparr>gamePhase := ph\<rparr>"
| "reduce (SyncGameStatus st) s = s\<lparr>gameStatus := st\<rparr>"
| "reduce (AddGameMessage ty content) s = s\<lparr>gameMessages := gameMessages s @ [(ty, content)]\<rparr>"
| "reduce (OtherAction ty) s = s"

subsection \<open>\<^verbatim>\<open>stateAdapterMiddleware\<close>\<close>

text \<open>
  The array entry the middleware builds from a \<^verbatim>\<open>playerSlice\<close> record in the
  \<^verbatim>\<open>players/addPlayer\<close> and \<^verbatim>\<open>players/updatePlayer\<close> cases.
\<close>

definition default_kekels :: "(int \<times> int \<times> int) option" where
  "default_kekels = Some (2, 5, 10)"

definition to_game_player :: "player \<Rightarrow> player" where
  "to_game_player p =
     \<lparr>player_id = player_id p,
      name = or_str (name p) (Some (''Player_'' @ take 4 (player_id p))),
      token = or_str (token p) (or_str (characterToken p) (or_str (emoji p) (Some bust))),
      characterToken = None,
      emoji = None,
      color = or_str (color p) (Some ''gray.500''),
      position = defined_or (position p) (Some 0),
      balance = defined_or (balance p) (Some 1500),
      properties = or_obj (properties p) (Some []),
      inJail = or_bool (inJail p) (Some False),
      jailTurns = or_num (jailTurns p) (Some 0),
      isReady = or_bool (isReady p) (Some False),
      isHost = or_bool (isHost p) (Some False),
      walletAddress = or_str (walletAddress p) (Some []),
      kekels = or_obj (kekels p) default_kekels,
      status = None\<rparr>"

text \<open>
  The \<^verbatim>\<open>game/setPlayers\<close> case, for one entry of the array: \<open>snapshot\<close> is
  \<^verbatim>\<open>state.players.players\<close> as read before the loop. While the loop runs the sync
  flag is set, so each nested dispatch passes the middleware unchanged and only the
  reducer acts.
\<close>

definition new_slice_player :: "player \<Rightarrow> player" where
  "new_slice_player p =
     \<lparr>player_id = player_id p,
      name = name p,
      token = or_str (token p) (or_str (characterToken p) (or_str (emoji p) (Some bust))),
      characterToken = or_str (characterToken p) (or_str (token p) (or_str (emoji p) (Some bust))),
      emoji = or_str (emoji p) (Some bust),
      color = or_str (color p) (Some ''gray.500''),
      position = defined_or (position p) (Some 0),
      balance = defined_or (balance p) (Some 1500),
      properties = or_obj (properties p) (Some []),
      inJail = or_bool (inJail p) (Some False),
      jailTurns = or_num (jailTurns p) (Some 0),
      isReady = or_bool (isReady p) (Some False),
      isHost = or_bool (isHost p) (Some False),
      walletAddress = or_str (walletAddress p) (Some []),
      kekels = or_obj (kekels p) default_kekels,
      status = None\<rparr>"

definition merge_updates :: "player \<Rightarrow> player \<Rightarrow> player \<Rightarrow> player" where
  "merge_updates p existingPlayer q =
     q\<lparr>name := or_str (name p) (name existingPlayer),
       token := or_str (token p) (or_str (characterToken p) (or_str (emoji p)
                  (or_str (token existingPlayer) (Some bust)))),
       characterToken := or_str (characterToken p) (or_str (token p) (or_str (emoji p)
                  (or_str (characterToken existingPlayer) (Some bust)))),
       emoji := or_str (emoji p) (or_str (emoji existingPlayer) (Some bust)),
       color := or_str (color p) (or_str (color existingPlayer) (Some ''gray.500'')),
       position := defined_or (position p) (or_num (position existingPlayer) (Some 0)),
       balance := defined_or (balance p) (or_num (balance existingPlayer) (Some 1500)),
       properties := or_obj (properties p) (or_obj (properties existingPlayer) (Some [])),
       inJail := defined_or (inJail p) (or_bool (inJail existingPlayer) (Some False)),
       jailTurns := defined_or (jailTurns p) (or_num (jailTurns existingPlayer) (Some 0)),
       isReady := defined_or (isReady p) (or_bool (isReady existingPlayer) (Some False)),
       isHost := defined_or (isHost p) (or_bool (isHost existingPlayer) (Some False))\<rparr>"

definition sync_to_playerSlice :: "(string \<times> player) list \<Rightarrow> player \<Rightarrow> store \<Rightarrow> store" where
  "sync_to_playerSlice snapshot p s =
     (if player_id p = [] then s
      else
        (case map_of snapshot (player_id p) of
           None \<Rightarrow> reduce (AddPlayer (player_id p) (new_slice_player p)) s
         | Some existingPlayer \<Rightarrow>
             reduce (UpdatePlayer (player_id p) (merge_updates p existingPlayer)) s))"

text \<open>
  \<^verbatim>\<open>try { window._isPlayerSyncInProgress = true; ... } finally { ... = false; }\<close>
\<close>

definition in_sync :: "(store \<Rightarrow> store) \<Rightarrow> store \<Rightarrow> store" where
  "in_sync body s = (body (s\<lparr>syncInProgress := True\<rparr>))\<lparr>syncInProgress := False\<rparr>"

text \<open>
  \<^verbatim>\<open>store.dispatch\<close>: the reducers run first (\<^verbatim>\<open>next(action)\<close>), then the
  middleware looks at the new state. A dispatch made while the flag is set returns
  right after the reducers, so the dispatches nested in the cases are \<open>reduce\<close>.
\<close>

definition dispatch :: "action \<Rightarrow> store \<Rightarrow> store" where
  "dispatch a s0 =
     (let s = reduce a s0 in
      if syncInProgress s then s
      else
        (case a of
           AddPlayer k p \<Rightarrow>
             if length (playerSlice_players s) \<noteq> length (gameSlice_players s)
             then in_sync (reduce (SetPlayers (map (to_game_player \<circ> snd) (playerSlice_players s)) True)) s
             else s
         | UpdatePlayer k upd \<Rightarrow>
             in_sync (reduce (SetPlayers (map (to_game_player \<circ> snd) (playerSlice_players s)) True)) s
         | SetPlayers ps isSync \<Rightarrow>
             if isSync then s
             else in_sync
                    (\<lambda>s1. fold (sync_to_playerSlice (playerSlice_players s)) (gameSlice_players s) s1) s
         | MovePlayer k newPosition \<Rightarrow>
             in_sync (reduce (UpdatePlayer k (\<lambda>q. q\<lparr>position := Some newPosition\<rparr>))) s
         | _ \<Rightarrow> s))"




subsection \<open>The socket service as a whole\<close>

text \<open>
  An outbound message is its type and the properties of its payload. \<open>storedTokenData\<close>
  is the parsed \<^verbatim>\<open>localStorage\<close> entry \<^verbatim>\<open>kekopoly_player_token_data\<close> (\<open>None\<close> when
  it is absent or does not parse); \<open>gameStartProcessed\<close> is the global
  \<^verbatim>\<open>window._gameStartProcessed\<close>.
\<close>

datatype out_message = Message string "(string \<times> string) list"

record token_data =
  td_token :: "string option"
  td_emoji :: "string option"
  td_color :: "string option"
  td_name :: "string option"

record client =
  service :: socket_service
  app :: store
  socketOpen :: bool
  sent :: "out_message list"
  gameId :: "string option"
  playerId :: "string option"
  localPlayerId :: "string option"
  storedTokenData :: "token_data option"
  confirmedFirstTurn :: bool
  gameStartProcessed :: bool

definition initial_client :: client where
  "initial_client =
     \<lparr>service = initial_service, app = initial_store, socketOpen = True, sent = [],
      gameId = Some ''room1'', playerId = Some ''local'', localPlayerId = Some ''local'',
      storedTokenData = None, confirmedFirstTurn = False, gameStartProcessed = False\<rparr>"

text \<open>What a handler can throw.\<close>

datatype js_error = ReferenceError string | TypeError string | SyntaxError string

text \<open>
  \<^verbatim>\<open>sendMessage\<close> (the class field, which shadows the method of the same name):
  sends when the socket is open, and only warns otherwise.
\<close>

definition sendMessage :: "string \<Rightarrow> (string \<times> string) list \<Rightarrow> client \<Rightarrow> client" where
  "sendMessage ty payload c =
     (if socketOpen c then c\<lparr>sent := sent c @ [Message ty payload]\<rparr> else c)"

definition store_dispatch :: "action \<Rightarrow> client \<Rightarrow> client" where
  "store_dispatch a c = c\<lparr>app := dispatch a (app c)\<rparr>"

definition str_of :: "string option \<Rightarrow> string" where
  "str_of v = (case v of None \<Rightarrow> [] | Some s \<Rightarrow> s)"

subsection \<open>Host status and store synchronisation\<close>

definition host_status_updates :: "bool \<Rightarrow> player \<Rightarrow> player \<Rightarrow> player" where
  "host_status_updates isPlayerHost p q =
     q\<lparr>isHost := Some isPlayerHost, isReady := isReady p, name := name p, token := token p,
       emoji := emoji p, color := color p\<rparr>"

text \<open>
  \<^verbatim>\<open>updatePlayersHostStatus(hostId, skipBroadcast)\<close>. The loop runs over the
  \<^verbatim>\<open>playerSlice\<close> records read before it. The deferred request for the active players
  that follows a change without \<^verbatim>\<open>skipBroadcast\<close> is a timer and is left out.
\<close>

definition updatePlayersHostStatus :: "string option \<Rightarrow> bool \<Rightarrow> client \<Rightarrow> client" where
  "updatePlayersHostStatus h skipBroadcast c =
     (if \<not> truthy_str h then c
      else
        (let existingPlayers = playerSlice_players (app c);
             c1 = (if hostId (app c) \<noteq> h
                   then (let c' = store_dispatch (SetHost (str_of h)) c
                         in if socketOpen c' \<and> \<not> skipBroadcast
                            then sendMessage ''verify_host'' [(''gameId'', str_of (gameId c'))] c'
                            else c')
                   else c)
         in fold (\<lambda>kv c'. if isHost (snd kv) \<noteq> Some (fst kv = str_of h)
                            then store_dispatch
                                   (UpdatePlayer (fst kv)
                                      (host_status_updates (fst kv = str_of h) (snd kv))) c'
                            else c')
              existingPlayers c1))"

text \<open>The array entry \<^verbatim>\<open>syncPlayerDataBetweenStores\<close> builds.\<close>

definition to_synced_player :: "player \<Rightarrow> player" where
  "to_synced_player p =
     (to_game_player p)
       \<lparr>characterToken := or_str (characterToken p) (or_str (token p) (or_str (emoji p) (Some bust))),
        emoji := or_str (emoji p) (Some bust)\<rparr>"

definition resynced_slice_player :: "player \<Rightarrow> player" where
  "resynced_slice_player p =
     (new_slice_player p)\<lparr>name := or_str (name p) (Some (''Player_'' @ take 4 (player_id p)))\<rparr>"

definition syncPlayerDataBetweenStores :: "client \<Rightarrow> client" where
  "syncPlayerDataBetweenStores c =
     (let playerSlicePlayers = playerSlice_players (app c);
          gameSlicePlayers = gameSlice_players (app c);
          playersArray = map (to_synced_player \<circ> snd) playerSlicePlayers
      in if playersArray \<noteq> [] then
           store_dispatch (SetGamePhase ''playing'')
             (store_dispatch (SetGameStarted True)
               (store_dispatch (SetPlayers playersArray False) c))
         else
           fold (\<lambda>p c'. if player_id p = [] then c'
                        else store_dispatch (AddPlayer (player_id p) (resynced_slice_player p)) c')
             gameSlicePlayers c)"

subsection \<open>\<^verbatim>\<open>handlePlayerJoined\<close>\<close>

definition is_local_player :: "client \<Rightarrow> player \<Rightarrow> bool" where
  "is_local_player c p \<longleftrightarrow>
     Some (player_id p) = playerId c \<or> Some (player_id p) = localPlayerId c"

text \<open>
  For a player that is already in the store, the handler collects the properties
  that changed. \<open>join_needs_update\<close> is its \<^verbatim>\<open>needsUpdate\<close> flag and
  \<open>join_updates\<close> the \<^verbatim>\<open>updates\<close> object it builds.
\<close>

definition join_needs_update :: "player \<Rightarrow> player \<Rightarrow> bool option \<Rightarrow> bool" where
  "join_needs_update existingPlayer p updatedHostStatus \<longleftrightarrow>
     isHost existingPlayer \<noteq> updatedHostStatus
     \<or> (isReady p \<noteq> None \<and> isReady existingPlayer \<noteq> isReady p)
     \<or> (truthy_str (name p) \<and> name existingPlayer \<noteq> name p)
     \<or> (truthy_str (token p) \<and> token existingPlayer \<noteq> token p)
     \<or> (truthy_str (emoji p) \<and> emoji existingPlayer \<noteq> emoji p)
     \<or> (truthy_str (color p) \<and> color existingPlayer \<noteq> color p)
     \<or> (truthy_str (status p) \<and> status existingPlayer \<noteq> status p)"

definition join_updates :: "player \<Rightarrow> player \<Rightarrow> bool option \<Rightarrow> player \<Rightarrow> player" where
  "join_updates existingPlayer p updatedHostStatus q =
     (let q1 = (if isHost existingPlayer \<noteq> updatedHostStatus
                then q\<lparr>isHost := updatedHostStatus\<rparr> else q);
          q2 = (if isReady p \<noteq> None \<and> isReady existingPlayer \<noteq> isReady p
                then q1\<lparr>isReady := isReady p\<rparr> else q1);
          q3 = (if truthy_str (name p) \<and> name existingPlayer \<noteq> name p
                then q2\<lparr>name := name p\<rparr> else q2);
          q4 = (if truthy_str (token p) \<and> token existingPlayer \<noteq> token p
                then q3\<lparr>token := token p\<rparr> else q3);
          q5 = (if truthy_str (emoji p) \<and> emoji existingPlayer \<noteq> emoji p
                then q4\<lparr>emoji := emoji p\<rparr> else q4);
          q6 = (if truthy_str (color p) \<and> color existingPlayer \<noteq> color p
                then q5\<lparr>color := color p\<rparr> else q5)
      in if truthy_str (status p) \<and> status existingPlayer \<noteq> status p
         then q6\<lparr>status := status p\<rparr> else q6)"

text \<open>The record built for a player that is not yet in the store.\<close>

definition joined_player_data :: "player \<Rightarrow> bool \<Rightarrow> player" where
  "joined_player_data p isPlayerHost =
     \<lparr>player_id = player_id p,
      name = or_str (name p) (Some (''Player '' @ take 4 (player_id p))),
      token = or_str (token p) (or_str (characterToken p) (Some [])),
      characterToken = or_str (characterToken p) (or_str (token p) (or_str (emoji p) (Some bust))),
      emoji = or_str (emoji p) (Some bust),
      color = or_str (color p) (Some ''gray.500''),
      position = Some 0,
      balance = Some 1500,
      properties = Some [],
      inJail = None,
      jailTurns = None,
      isReady = defined_or (isReady p) (Some False),
      isHost = Some isPlayerHost,
      walletAddress = None,
      kekels = None,
      status = or_str (status p) (Some ''ACTIVE'')\<rparr>"

definition with_stored_token_data :: "token_data \<Rightarrow> player \<Rightarrow> player" where
  "with_stored_token_data td playerData =
     playerData
       \<lparr>token := or_str (td_token td) (token playerData),
        emoji := or_str (td_emoji td) (emoji playerData),
        color := or_str (td_color td) (color playerData),
        characterToken := or_str (td_token td) (or_str (td_emoji td) (characterToken playerData))\<rparr>"

definition token_update_payload :: "player \<Rightarrow> token_data \<Rightarrow> (string \<times> string) list" where
  "token_update_payload p td =
     [(''playerId'', player_id p),
      (''characterToken'', str_of (or_str (td_token td) (or_str (td_emoji td) (Some bust)))),
      (''token'', str_of (or_str (td_token td) (Some []))),
      (''emoji'', str_of (or_str (td_emoji td) (Some bust))),
      (''color'', str_of (or_str (td_color td) (Some ''gray.500''))),
      (''name'', str_of (or_str (name p) (or_str (td_name td)
                   (Some (''Player_'' @ take 4 (player_id p))))))]"

text \<open>
  \<^verbatim>\<open>handlePlayerJoined(player)\<close>, up to its return or throw, in its three parts: the
  requests it sends first (\<open>join_requests\<close>), the branch for a player that is already
  in the store (\<open>join_existing\<close>) and the branch that adds a new player
  (\<open>join_new\<close>). The argument is \<open>None\<close> for a missing \<^verbatim>\<open>player\<close> property. The result is the client afterwards and the
  exception thrown, if any. In the branch for a player that already exists, once
  \<^verbatim>\<open>needsUpdate\<close> is set the handler logs \<^verbatim>\<open>data.playerId\<close>; no \<^verbatim>\<open>data\<close> is in scope
  there (the parameter is \<^verbatim>\<open>player\<close>, and the module declares none), so evaluating
  the argument throws a \<^verbatim>\<open>ReferenceError\<close> before \<^verbatim>\<open>updatePlayer\<close> is dispatched.
  The requests for the active players that are deferred by 200 ms are timers and are
  left out.
\<close>

definition join_requests :: "player \<Rightarrow> client \<Rightarrow> client" where
  "join_requests p c =
     (let c1 = (if socketOpen c then sendMessage ''get_active_players'' [] c else c)
      in if is_local_player c1 p
         then (case storedTokenData c1 of
                 None \<Rightarrow> c1
               | Some td \<Rightarrow> sendMessage ''update_player_info'' (token_update_payload p td) c1)
         else c1)"

definition join_existing ::
  "player \<Rightarrow> player \<Rightarrow> string option \<Rightarrow> client \<Rightarrow> client \<times> js_error option" where
  "join_existing p existingPlayer h c =
     (let claims_host = (isHost p = Some True \<and> h \<noteq> Some (player_id p));
          c' = (if claims_host then store_dispatch (SetHost (player_id p)) c else c);
          updatedHostStatus =
            (if claims_host then Some True
             else if Some (player_id p) = h then Some True
             else isHost existingPlayer)
      in if join_needs_update existingPlayer p updatedHostStatus
         then (c', Some (ReferenceError ''data is not defined''))
         else (c', None))"

definition join_new ::
  "player \<Rightarrow> (string \<times> player) list \<Rightarrow> string option \<Rightarrow> client \<Rightarrow> client \<times> js_error option" where
  "join_new p existingPlayers h c =
     (let explicit = (isHost p = Some True);
          first = (\<not> explicit \<and> Some (player_id p) \<noteq> h \<and> \<not> truthy_str h
                   \<and> existingPlayers = []);
          isPlayerHost = (explicit \<or> Some (player_id p) = h \<or> first);
          c3 = (if explicit \<or> first then store_dispatch (SetHost (player_id p)) c else c);
          h' = (if explicit \<or> first then Some (player_id p) else h);
          playerData0 = joined_player_data p isPlayerHost;
          playerData =
            (if is_local_player c3 p
             then (case storedTokenData c3 of
                     None \<Rightarrow> playerData0
                   | Some td \<Rightarrow> with_stored_token_data td playerData0)
             else playerData0);
          c4 = store_dispatch (AddPlayer (player_id p) playerData) c3;
          c5 = (if isPlayerHost then updatePlayersHostStatus h' True c4 else c4)
      in (syncPlayerDataBetweenStores c5, None))"

definition handlePlayerJoined :: "player option \<Rightarrow> client \<Rightarrow> client \<times> js_error option" where
  "handlePlayerJoined arg c =
     (case arg of
        None \<Rightarrow> (c, None)
      | Some p \<Rightarrow>
          if player_id p = [] then (c, None)
          else
            (let c2 = join_requests p c;
                 existingPlayers = playerSlice_players (app c2);
                 h = hostId (app c2)
             in (case map_of existingPlayers (player_id p) of
                   Some existingPlayer \<Rightarrow> join_existing p existingPlayer h c2
                 | None \<Rightarrow> join_new p existingPlayers h c2)))"

subsection \<open>Turn messages\<close>

text \<open>
  The properties of a \<^verbatim>\<open>current_turn\<close>, \<^verbatim>\<open>turn_changed\<close> or \<^verbatim>\<open>game_started\<close>
  message that the handlers read. A missing value in a template literal prints as
  \<^verbatim>\<open>undefined\<close>. Toast notifications, log output, writes to \<^verbatim>\<open>localStorage\<close> other
  than the token data, and timers (which re-dispatch the same value or re-request
  state from the server) are left out of the handlers below.
\<close>

record turn_message =
  msg_currentTurn :: "string option"
  msg_currentPlayer :: "string option"
  msg_playerName :: "string option"
  msg_rolledDoubles :: bool


definition apostrophe :: string where
  "apostrophe = [CHR 0x27]"

text \<open>The name shown for the player whose turn it is, looked up in the array.\<close>

definition turn_player_name :: "player list \<Rightarrow> string \<Rightarrow> string" where
  "turn_player_name players t =
     (case find (\<lambda>p. player_id p = t) players of
        None \<Rightarrow> ''another player''
      | Some p \<Rightarrow> if truthy_str (name p) then str_of (name p) else ''another player'')"



subsection \<open>\<^verbatim>\<open>handleGameStarted\<close>\<close>

definition game_start_token_data :: "string \<Rightarrow> player \<Rightarrow> token_data" where
  "game_start_token_data pid playerData =
     \<lparr>td_token = or_str (token playerData) (Some []),
      td_emoji = or_str (emoji playerData) (Some bust),
      td_color = or_str (color playerData) (Some ''gray.500''),
      td_name = or_str (name playerData) (Some (''Player_'' @ take 4 pid))\<rparr>"

definition game_start_token_updates :: "player \<Rightarrow> player \<Rightarrow> player" where
  "game_start_token_updates playerData q =
     q\<lparr>token := or_str (token playerData) (Some []),
       emoji := or_str (emoji playerData) (Some bust),
       color := or_str (color playerData) (Some ''gray.500''),
       characterToken := or_str (token playerData) (or_str (emoji playerData) (Some bust))\<rparr>"

text \<open>
  The block that preserves the local player's token data across the navigation: it
  stores the data, sends it to the server in three formats and writes it back to the
  store.
\<close>

definition preserve_token_data :: "client \<Rightarrow> client" where
  "preserve_token_data c =
     (case playerId c of
        None \<Rightarrow> c
      | Some pid \<Rightarrow>
          (case map_of (playerSlice_players (app c)) pid of
             None \<Rightarrow> c
           | Some playerData \<Rightarrow>
               (let td = game_start_token_data pid playerData;
                    tok = str_of (or_str (token playerData) (or_str (emoji playerData) (Some bust)));
                    c1 = c\<lparr>storedTokenData := Some td\<rparr>;
                    c2 = sendMessage ''update_player_info''
                           [(''playerId'', pid), (''characterToken'', tok),
                            (''token'', str_of (td_token td)), (''emoji'', str_of (td_emoji td)),
                            (''color'', str_of (td_color td)), (''name'', str_of (td_name td))] c1;
                    c3 = sendMessage ''update_player''
                           [(''playerId'', pid), (''token'', tok), (''characterToken'', tok)] c2;
                    c4 = sendMessage ''set_player_token'' [(''playerId'', pid), (''token'', tok)] c3
                in store_dispatch (UpdatePlayer pid (game_start_token_updates playerData)) c4)))"

text \<open>
  \<^verbatim>\<open>handleGameStarted(data)\<close>, in the three steps of its body: it marks the game as
  started (navigation flags, game phase and status), preserves the token data, and sets
  the initial turn. When the message carries no \<^verbatim>\<open>currentTurn\<close> and the store has a
  host, the handler makes the host the current player itself and asks the server to
  adopt that with \<^verbatim>\<open>set_current_turn\<close>.
\<close>

definition mark_game_started :: "client \<Rightarrow> client" where
  "mark_game_started c =
     store_dispatch (SyncGameStatus ''PLAYING'')
       (store_dispatch (OtherAction ''game/setGameStartedTimestamp'')
         (store_dispatch (SetGamePhase ''playing'')
           (store_dispatch (SetGameStarted True)
             (c\<lparr>gameStartProcessed := True,
                service := (service c)\<lparr>isTransitioningToGame := True, isNavigating := True,
                                         preserveConnection := True\<rparr>\<rparr>))))"

definition set_initial_turn ::
  "turn_message \<Rightarrow> string option \<Rightarrow> player list \<Rightarrow> client \<Rightarrow> client" where
  "set_initial_turn data h players c =
     (if truthy_str (msg_currentTurn data) then
        (let t = str_of (msg_currentTurn data);
             c' = (store_dispatch (SetCurrentPlayer t) c)\<lparr>confirmedFirstTurn := True\<rparr>
         in store_dispatch
              (AddGameMessage ''TURN''
                 (if Some t = localPlayerId c'
                  then ''It'' @ apostrophe @ ''s your turn to start the game!''
                  else ''It'' @ apostrophe @ ''s '' @ turn_player_name players t
                         @ apostrophe @ ''s turn to start the game'')) c')
      else if truthy_str h then
        (let c' = store_dispatch (SetCurrentPlayer (str_of h)) c;
             c'' = (if socketOpen c'
                    then sendMessage ''get_current_turn'' []
                           (sendMessage ''set_current_turn''
                              [(''playerId'', str_of h), (''gameId'', str_of (gameId c'))] c')
                    else c')
         in store_dispatch
              (AddGameMessage ''TURN''
                 (if h = localPlayerId c''
                  then ''It'' @ apostrophe @ ''s your turn to start the game!''
                  else ''It'' @ apostrophe @ ''s the host'' @ apostrophe
                         @ ''s turn to start the game'')) c'')
      else if socketOpen c
        then sendMessage ''get_game_state'' [(''full'', ''true'')]
               (sendMessage ''get_current_turn'' [] c)
      else c)"

definition handleGameStarted :: "turn_message \<Rightarrow> client \<Rightarrow> client" where
  "handleGameStarted data c =
     (if gameStartProcessed c then c
      else
        (let c2 = mark_game_started c;
             h = hostId (app c2);
             players = gameSlice_players (app c2);
             c3 = store_dispatch
                    (AddGameMessage ''SYSTEM'' ''Game has started! Navigating to game board...'') c2;
             c4 = (preserve_token_data c3)\<lparr>confirmedFirstTurn := False\<rparr>;
             c5 = set_initial_turn data h players c4
         in if socketOpen c5
            then sendMessage ''broadcast_game_started'' [(''gameId'', str_of (gameId c5))] c5
            else c5))"

subsection \<open>Sample messages and rooms\<close>

text \<open>
  Join messages for two players, a second join of the first player under a new name,
  a \<^verbatim>\<open>game_started\<close> message without a turn, and the client after the first player
  has joined an empty room.
\<close>

definition alice_join :: player where
  "alice_join = (blank_player ''p1'')\<lparr>name := Some ''Alice''\<rparr>"

definition bob_join_as_host :: player where
  "bob_join_as_host = (blank_player ''p2'')\<lparr>name := Some ''Bob'', isHost := Some True\<rparr>"

definition alice_renamed :: player where
  "alice_renamed = (blank_player ''p1'')\<lparr>name := Some ''Alicia''\<rparr>"

definition no_turn_message :: turn_message where
  "no_turn_message =
     \<lparr>msg_currentTurn = None, msg_currentPlayer = None, msg_playerName = None,
      msg_rolledDoubles = False\<rparr>"

definition turn_message_for :: "string \<Rightarrow> turn_message" where
  "turn_message_for t =
     \<lparr>msg_currentTurn = Some t, msg_currentPlayer = None, msg_playerName = Some ''Bob'',
      msg_rolledDoubles = False\<rparr>"

definition room_with_alice :: client where
  "room_with_alice = fst (handlePlayerJoined (Some alice_join) initial_client)"

subsection \<open>Inbound frames (\<^verbatim>\<open>handleMessage\<close>, \<^verbatim>\<open>handleLobbyMessage\<close>)\<close>

text \<open>
  A frame is the text of a WebSocket message: a JavaScript string, that is, a sequence
  of UTF-16 code units. \<open>utf16\<close> gives the code units of an ASCII text.
  \<^verbatim>\<open>String.prototype.includes\<close> looks for a substring, and \<^verbatim>\<open>trim\<close> removes from both
  ends the code units that ECMAScript counts as white space or line terminators: tab,
  line feed, vertical tab, form feed, carriage return, space, no-break space, the
  space separators U+1680, U+2000 to U+200A, U+202F, U+205F and U+3000, the line and
  paragraph separators U+2028 and U+2029, and the byte order mark U+FEFF.
\<close>

type_synonym code_unit = "16 word"

type_synonym js_string = "code_unit list"

definition utf16 :: "string \<Rightarrow> js_string" where
  "utf16 s = map (\<lambda>c. of_nat (of_char c)) s"

abbreviation LBRACE :: code_unit where
  "LBRACE \<equiv> 0x7B"

abbreviation RBRACE :: code_unit where
  "RBRACE \<equiv> 0x7D"


definition is_space :: "code_unit \<Rightarrow> bool" where
  "is_space c \<longleftrightarrow>
     c = 0x09 \<or> c = 0x0A \<or> c = 0x0B \<or> c = 0x0C \<or> c = 0x0D \<or> c = 0x20 \<or> c = 0xA0
     \<or> c = 0x1680 \<or> (0x2000 \<le> c \<and> c \<le> 0x200A) \<or> c = 0x2028 \<or> c = 0x2029
     \<or> c = 0x202F \<or> c = 0x205F \<or> c = 0x3000 \<or> c = 0xFEFF"

definition js_trim :: "js_string \<Rightarrow> js_string" where
  "js_trim s = rev (dropWhile is_space (rev (dropWhile is_space s)))"

text \<open>
  \<^verbatim>\<open>rawData.split(/(?<=\})(?=\{)/)\<close>: the frame is cut at every position that has a
  closing brace before it and an opening brace after it.
\<close>

fun split_boundary :: "js_string \<Rightarrow> js_string list" where
  "split_boundary [] = [[]]"
| "split_boundary [c] = [[c]]"
| "split_boundary (c # d # cs) =
     (if c = RBRACE \<and> d = LBRACE then [c] # split_boundary (d # cs)
      else (case split_boundary (d # cs) of
              [] \<Rightarrow> [[c]]
            | w # ws \<Rightarrow> (c # w) # ws))"



















subsection \<open>Sample frames\<close>


definition pong_text :: js_string where
  "pong_text = utf16 ''{type:pong}''"











subsection \<open>Coalesced frames, as the specification words them\<close>





section \<open>Properties\<close>

subsection \<open>Rounding to a double\<close>

lemma pow2_powi: "pow2 e = 2 powi e"
  by (simp add: pow2_def power_int_def inverse_eq_divide power_one_over)

lemma pow2_pos: "0 < pow2 e"
  by (simp add: pow2_powi)

lemma pow2_add: "pow2 (a + b) = pow2 a * pow2 b"
  by (simp add: pow2_powi power_int_add)

lemma pow2_mono: "a \<le> b \<Longrightarrow> pow2 a \<le> pow2 b"
  by (simp add: pow2_powi power_int_increasing)

lemma pow2_nat: "0 \<le> e \<Longrightarrow> pow2 e = of_int (2 ^ nat e)"
  by (simp add: pow2_def)

lemma floor_log2_le:
  assumes "0 < x"
  shows "pow2 (floor_log2 x) \<le> x"
proof -
  obtain p q where pq: "quotient_of x = (p, q)" by (cases "quotient_of x")
  have q: "0 < q" using pq by (rule quotient_of_denom_pos)
  have x: "x = of_int p / of_int q" using pq by (rule quotient_of_div)
  have p: "0 < p" using assms q unfolding x by (simp add: zero_less_divide_iff)
  define d where "d = bitlen p - bitlen q"
  show ?thesis
  proof (cases "of_int q * pow2 d \<le> (of_int p :: rat)")
    case True
    then have "pow2 d \<le> x" using q unfolding x by (simp add: pos_le_divide_eq mult.commute)
    moreover have "floor_log2 x = d" using True by (simp add: floor_log2_def pq d_def)
    ultimately show ?thesis by simp
  next
    case False
    then have f: "floor_log2 x = d - 1" by (simp add: floor_log2_def pq d_def)
    have bp: "2 ^ nat (bitlen p - 1) \<le> p" using bitlen_bounds [OF p] by simp
    have bq: "q < 2 ^ nat (bitlen q)" using bitlen_bounds [OF q] by simp
    have lp: "1 \<le> bitlen p" using p bitlen_eq_zero_iff [of p] bitlen_nonneg [of p] by linarith
    have "d - 1 = (bitlen p - 1) + (- bitlen q)" by (simp add: d_def)
    then have "pow2 (d - 1) = pow2 (bitlen p - 1) * pow2 (- bitlen q)"
      by (simp only: pow2_add)
    also have "\<dots> = of_int (2 ^ nat (bitlen p - 1)) / of_int (2 ^ nat (bitlen q))"
      using lp bitlen_nonneg [of q] by (simp add: pow2_def)
    also have "\<dots> \<le> of_int p / of_int q"
    proof (rule frac_le)
      show "(0::rat) \<le> of_int p" using p by simp
      show "(of_int (2 ^ nat (bitlen p - 1)) :: rat) \<le> of_int p" using bp by (simp only: of_int_le_iff)
      show "(0::rat) < of_int q" using q by simp
      show "(of_int q :: rat) \<le> of_int (2 ^ nat (bitlen q))" using bq by (simp only: of_int_le_iff)
    qed
    finally have "pow2 (d - 1) \<le> x" unfolding x .
    then show ?thesis by (simp only: f)
  qed
qed

lemma round_half_even_int: "round_half_even (of_int z) = z"
  by (simp add: round_half_even_def Let_def)

text \<open>
  A value \<open>M \<times> 2\<^sup>E\<close> with \<open>|M| < 2\<^sup>5\<^sup>3\<close> and \<open>E \<ge> -1074\<close> inside the range is a
  double, and rounding leaves it unchanged.
\<close>

lemma round_double_exact:
  assumes x: "x = of_int M * pow2 E" and M: "\<bar>M\<bar> < 2 ^ 53" and E: "- 1074 \<le> E"
    and r: "\<bar>x\<bar> < 2 ^ 1024"
  shows "round_double x = Finite x"
proof (cases "x = 0")
  case True
  then show ?thesis by (simp add: round_double_def)
next
  case False
  define e where "e = max (floor_log2 \<bar>x\<bar> - 52) (- 1074)"
  have pos: "0 < \<bar>x\<bar>" using False by simp
  have "floor_log2 \<bar>x\<bar> - 52 \<le> E"
  proof (rule ccontr)
    assume "\<not> floor_log2 \<bar>x\<bar> - 52 \<le> E"
    then have "E + 53 \<le> floor_log2 \<bar>x\<bar>" by simp
    then have "pow2 (E + 53) \<le> pow2 (floor_log2 \<bar>x\<bar>)" by (rule pow2_mono)
    also have "\<dots> \<le> \<bar>x\<bar>" using pos by (rule floor_log2_le)
    also have "\<bar>x\<bar> = of_int \<bar>M\<bar> * pow2 E"
      unfolding x using pow2_pos [of E] by (simp add: abs_mult)
    also have "\<dots> < of_int (2 ^ 53) * pow2 E"
      using M pow2_pos [of E] by (intro mult_strict_right_mono) (simp_all only: of_int_less_iff)
    also have "\<dots> = pow2 (E + 53)"
      unfolding pow2_add by (simp add: pow2_def [of 53])
    finally show False by simp
  qed
  then have le: "e \<le> E" using E by (simp add: e_def)
  have "pow2 E = pow2 (E - e) * pow2 e"
    unfolding pow2_add [symmetric] by simp
  then have "x / pow2 e = of_int M * pow2 (E - e)"
    unfolding x using pow2_pos [of e] by simp
  also have "\<dots> = of_int (M * 2 ^ nat (E - e))"
    using le by (simp add: pow2_nat)
  finally have q: "x / pow2 e = of_int (M * 2 ^ nat (E - e))" .
  have y: "of_int (round_half_even (x / pow2 e)) * pow2 e = x"
    unfolding q round_half_even_int unfolding q [symmetric] using pow2_pos [of e] by simp
  show ?thesis
    using False r by (simp add: round_double_def Let_def e_def [symmetric] y)
qed

lemma default_products_exact:
  assumes "k < 30"
  shows "round_double (1000 * (3 / 2) ^ k) = Finite (1000 * (3 / 2) ^ k)"
proof (rule round_double_exact [where M = "125 * 3 ^ k" and E = "3 - int k"])
  have "(3::int) ^ k \<le> 3 ^ 29" using assms by (intro power_increasing) simp_all
  then show "\<bar>125 * 3 ^ k :: int\<bar> < 2 ^ 53" by simp
  show "- 1074 \<le> 3 - int k" using assms by simp
  have p: "pow2 (3 - int k) = 8 / 2 ^ k"
    using pow2_add [of 3 "- int k"] by (simp add: pow2_def)
  show "(1000::rat) * (3 / 2) ^ k = of_int (125 * 3 ^ k) * pow2 (3 - int k)"
    unfolding p by (simp add: power_divide)
  have "(3 / 2 :: rat) ^ k \<le> 2 ^ k"
    by (intro power_mono) simp_all
  also have "\<dots> \<le> 2 ^ 29" using assms by (intro power_increasing) simp_all
  finally have "(1000::rat) * (3 / 2) ^ k \<le> 1000 * 2 ^ 29" by simp
  also have "\<dots> < 2 ^ 1024" by simp
  finally show "\<bar>(1000::rat) * (3 / 2) ^ k\<bar> < 2 ^ 1024" by simp
qed

lemma floor_log2_less:
  assumes "0 < x"
  shows "x < pow2 (floor_log2 x + 1)"
proof -
  obtain p q where pq: "quotient_of x = (p, q)" by (cases "quotient_of x")
  have q: "0 < q" using pq by (rule quotient_of_denom_pos)
  have x: "x = of_int p / of_int q" using pq by (rule quotient_of_div)
  have p: "0 < p" using assms q unfolding x by (simp add: zero_less_divide_iff)
  define d where "d = bitlen p - bitlen q"
  show ?thesis
  proof (cases "of_int q * pow2 d \<le> (of_int p :: rat)")
    case True
    then have f: "floor_log2 x = d" by (simp add: floor_log2_def pq d_def)
    have bp: "p < 2 ^ nat (bitlen p)" using bitlen_bounds [OF p] by simp
    have bq: "2 ^ nat (bitlen q - 1) \<le> q" using bitlen_bounds [OF q] by simp
    have lq: "1 \<le> bitlen q" using q bitlen_eq_zero_iff [of q] bitlen_nonneg [of q] by linarith
    have "of_int p / of_int q < (of_int (2 ^ nat (bitlen p)) :: rat) / of_int (2 ^ nat (bitlen q - 1))"
    proof (rule frac_less)
      show "(0::rat) \<le> of_int p" using p by simp
      show "(of_int p :: rat) < of_int (2 ^ nat (bitlen p))" using bp by (simp only: of_int_less_iff)
      show "(0::rat) < of_int (2 ^ nat (bitlen q - 1))" by simp
      show "(of_int (2 ^ nat (bitlen q - 1)) :: rat) \<le> of_int q" using bq by (simp only: of_int_le_iff)
    qed
    also have "\<dots> = pow2 (bitlen p) * pow2 (- (bitlen q - 1))"
      using lq bitlen_nonneg [of p] by (simp add: pow2_def)
    also have "\<dots> = pow2 (bitlen p + (- (bitlen q - 1)))"
      by (simp only: pow2_add)
    also have "bitlen p + (- (bitlen q - 1)) = d + 1" by (simp add: d_def)
    finally have "x < pow2 (d + 1)" unfolding x .
    then show ?thesis by (simp only: f)
  next
    case False
    then have f: "floor_log2 x = d - 1" by (simp add: floor_log2_def pq d_def)
    have "x < pow2 d" using False q unfolding x by (simp add: pos_divide_less_eq mult.commute)
    then show ?thesis by (simp add: f)
  qed
qed

lemma floor_log2_eq:
  assumes "0 < x" "pow2 e \<le> x" "x < pow2 (e + 1)"
  shows "floor_log2 x = e"
proof (rule antisym)
  show "floor_log2 x \<le> e"
  proof (rule ccontr)
    assume "\<not> floor_log2 x \<le> e"
    then have "e + 1 \<le> floor_log2 x" by simp
    then have "pow2 (e + 1) \<le> pow2 (floor_log2 x)" by (rule pow2_mono)
    also have "\<dots> \<le> x" using assms(1) by (rule floor_log2_le)
    finally show False using assms(3) by simp
  qed
  show "e \<le> floor_log2 x"
  proof (rule ccontr)
    assume "\<not> e \<le> floor_log2 x"
    then have "floor_log2 x + 1 \<le> e" by simp
    then have "pow2 (floor_log2 x + 1) \<le> pow2 e" by (rule pow2_mono)
    with floor_log2_less [OF assms(1)] assms(2) show False by simp
  qed
qed

lemma correctly_rounded_pow_exact:
  assumes "k < 34"
  shows "correctly_rounded_pow (3 / 2) k = Finite ((3 / 2) ^ k)"
  unfolding correctly_rounded_pow_def
proof (rule round_double_exact [where M = "3 ^ k" and E = "- int k"])
  have "(3::int) ^ k \<le> 3 ^ 33" using assms by (intro power_increasing) simp_all
  then show "\<bar>3 ^ k :: int\<bar> < 2 ^ 53" by simp
  show "- 1074 \<le> - int k" using assms by simp
  show "(3 / 2 :: rat) ^ k = of_int (3 ^ k) * pow2 (- int k)"
    by (cases "k = 0") (simp_all add: pow2_def power_divide)
  have "(3 / 2 :: rat) ^ k \<le> 2 ^ k"
    by (intro power_mono) simp_all
  also have "\<dots> \<le> 2 ^ 33" using assms by (intro power_increasing) simp_all
  also have "\<dots> < 2 ^ 1024" by simp
  finally show "\<bar>(3 / 2 :: rat) ^ k\<bar> < 2 ^ 1024" by simp
qed

lemma rounded_from_31:
  "js_times 1000 (correctly_rounded_pow (3 / 2) 30) = Finite (6434097877957781 / 33554432)"
proof -
  have x: "(1000::rat) * (3 / 2) ^ 30 = 25736391511831125 / 134217728"
    by (simp add: power_divide)
  have "floor_log2 \<bar>25736391511831125 / 134217728\<bar> = 27"
    by (rule floor_log2_eq) (simp_all add: pow2_def)
  moreover have "\<lfloor>(25736391511831125::rat) / 4\<rfloor> = 6434097877957781"
    by (simp add: floor_eq_iff)
  ultimately have "round_double (25736391511831125 / 134217728)
      = Finite (6434097877957781 / 33554432)"
    by (simp add: round_double_def pow2_def round_half_even_def Let_def)
  then show ?thesis
    by (simp add: js_times_def correctly_rounded_pow_exact x)
qed

subsection \<open>Reconnection backoff\<close>

lemma after_unclean_fields:
  "no_navigation s \<Longrightarrow> reconnectAttempts s = 0 \<Longrightarrow>
   reconnectAttempts (after_unclean pow n s) = min n (maxReconnectAttempts s)
   \<and> maxReconnectAttempts (after_unclean pow n s) = maxReconnectAttempts s
   \<and> reconnectInterval (after_unclean pow n s) = reconnectInterval s
   \<and> no_navigation (after_unclean pow n s)"
proof (induction n)
  case 0
  then show ?case by simp
next
  case (Suc n)
  then show ?case
    by (auto simp: handleDisconnect_def no_navigation_def loadState_isNavigating_def Let_def)
qed

text \<open>
  C2, as the code has it. Outside a navigation (none of the three navigation flags
  set), in a run of unclean disconnections starting from a fresh counter, the \<open>n\<close>-th
  disconnection schedules reconnection attempt \<open>n\<close> after the double product
  \<^verbatim>\<open>reconnectInterval * Math.pow(1.5, n - 1)\<close> milliseconds as long as
  \<open>n \<le> maxReconnectAttempts\<close>, and every later one schedules nothing and gives up.
  When the engine returns the power \<open>1.5 ^ (n - 1)\<close> itself, the delay is exactly
  \<open>reconnectInterval * 1.5 ^ (n - 1)\<close> whenever that value is a double \<open>M * 2^E\<close>;
  with the default interval of 1000 ms this is so for every \<open>n\<close> up to 30, and so
  for every attempt the default cap of five allows. A disconnection during a
  navigation resets the counter and reconnects after 100 ms.
\<close>

theorem reconnect_backoff_outside_navigation:
  assumes "no_navigation s" and "reconnectAttempts s = 0" and "1 \<le> n"
  shows "(n \<le> maxReconnectAttempts s \<longrightarrow>
            nth_unclean_action pow n s
              = BackoffReconnect (js_times (reconnectInterval s) (pow (3 / 2) (n - 1))))
       \<and> (n \<le> maxReconnectAttempts s \<and> pow (3 / 2) (n - 1) = Finite ((3 / 2) ^ (n - 1))
            \<and> reconnectInterval s * (3 / 2) ^ (n - 1) = of_int M * pow2 E
            \<and> \<bar>M\<bar> < 2 ^ 53 \<and> - 1074 \<le> E \<and> \<bar>of_int M * pow2 E\<bar> < 2 ^ 1024 \<longrightarrow>
            nth_unclean_action pow n s
              = BackoffReconnect (Finite (reconnectInterval s * (3 / 2) ^ (n - 1))))
       \<and> (n \<le> maxReconnectAttempts s \<and> n \<le> 30 \<and> reconnectInterval s = 1000
            \<and> pow (3 / 2) (n - 1) = Finite ((3 / 2) ^ (n - 1)) \<longrightarrow>
            nth_unclean_action pow n s = BackoffReconnect (Finite (1000 * (3 / 2) ^ (n - 1))))
       \<and> (maxReconnectAttempts s < n \<longrightarrow> nth_unclean_action pow n s = GiveUp)
       \<and> (\<forall>t. isNavigating t \<or> preserveConnection t \<or> loadState_isNavigating t \<longrightarrow>
              handleDisconnect pow False t = (t\<lparr>reconnectAttempts := 0\<rparr>, NavigationReconnect 100))"
proof -
  obtain m where n: "n = Suc m" using assms(3) by (cases n) auto
  let ?t = "after_unclean pow m s"
  let ?x = "reconnectInterval s * (3 / 2) ^ (n - 1)"
  have f: "reconnectAttempts ?t = min m (maxReconnectAttempts s)"
    "maxReconnectAttempts ?t = maxReconnectAttempts s"
    "reconnectInterval ?t = reconnectInterval s" "no_navigation ?t"
    using after_unclean_fields [OF assms(1,2), of pow m] by simp_all
  have a: "n \<le> maxReconnectAttempts s \<longrightarrow>
      nth_unclean_action pow n s
        = BackoffReconnect (js_times (reconnectInterval s) (pow (3 / 2) (n - 1)))"
    using f by (auto simp: n nth_unclean_action_def handleDisconnect_def no_navigation_def Let_def)
  have g: "?x = of_int M * pow2 E \<and> \<bar>M\<bar> < 2 ^ 53 \<and> - 1074 \<le> E
      \<and> \<bar>of_int M * pow2 E\<bar> < 2 ^ 1024 \<longrightarrow> round_double ?x = Finite ?x"
    using round_double_exact [of ?x M E] by simp
  have e: "n \<le> 30 \<Longrightarrow> round_double (1000 * (3 / 2) ^ (n - 1)) = Finite (1000 * (3 / 2) ^ (n - 1))"
    using default_products_exact [of "n - 1"] n by simp
  have b: "n \<le> maxReconnectAttempts s \<and> pow (3 / 2) (n - 1) = Finite ((3 / 2) ^ (n - 1))
        \<and> ?x = of_int M * pow2 E
        \<and> \<bar>M\<bar> < 2 ^ 53 \<and> - 1074 \<le> E \<and> \<bar>of_int M * pow2 E\<bar> < 2 ^ 1024 \<longrightarrow>
      nth_unclean_action pow n s = BackoffReconnect (Finite ?x)"
    using a g by (auto simp: js_times_def)
  have c: "n \<le> maxReconnectAttempts s \<and> n \<le> 30 \<and> reconnectInterval s = 1000
            \<and> pow (3 / 2) (n - 1) = Finite ((3 / 2) ^ (n - 1)) \<longrightarrow>
      nth_unclean_action pow n s = BackoffReconnect (Finite (1000 * (3 / 2) ^ (n - 1)))"
    using a e by (auto simp: js_times_def)
  have d: "maxReconnectAttempts s < n \<longrightarrow> nth_unclean_action pow n s = GiveUp"
    using f by (auto simp: n nth_unclean_action_def handleDisconnect_def no_navigation_def Let_def)
  have h: "\<forall>t. isNavigating t \<or> preserveConnection t \<or> loadState_isNavigating t \<longrightarrow>
      handleDisconnect pow False t = (t\<lparr>reconnectAttempts := 0\<rparr>, NavigationReconnect 100)"
    by (simp add: handleDisconnect_def)
  from a b c d h show ?thesis by blast
qed

theorem reconnect_backoff_outside_navigation_witness:
  "nth_unclean_action correctly_rounded_pow 3 initial_service = BackoffReconnect (Finite 2250)
   \<and> nth_unclean_action correctly_rounded_pow 2 (initial_service\<lparr>reconnectInterval := 500\<rparr>)
       = BackoffReconnect (Finite 750)
   \<and> nth_unclean_action correctly_rounded_pow 6 initial_service = GiveUp
   \<and> handleDisconnect correctly_rounded_pow False (initial_service\<lparr>preserveConnection := True\<rparr>)
       = (initial_service\<lparr>preserveConnection := True, reconnectAttempts := 0\<rparr>,
          NavigationReconnect 100)"
proof -
  have h: "no_navigation initial_service" "reconnectAttempts initial_service = 0"
    by (simp_all add: no_navigation_def initial_service_def loadState_isNavigating_def)
  have m: "maxReconnectAttempts initial_service = 5" "reconnectInterval initial_service = 1000"
    by (simp_all add: initial_service_def)
  have p: "correctly_rounded_pow (3 / 2) (3 - 1) = Finite ((3 / 2) ^ (3 - 1))"
    by (rule correctly_rounded_pow_exact) simp
  have v: "(1000::rat) * (3 / 2) ^ (3 - 1) = 2250"
    by (simp add: power2_eq_square)
  have o: "(1::nat) \<le> 3" "(1::nat) \<le> 6"
    by simp_all
  note t3 = reconnect_backoff_outside_navigation [OF h o(1), where pow = correctly_rounded_pow
      and M = 0 and E = 0]
  note t6 = reconnect_backoff_outside_navigation [OF h o(2), where pow = correctly_rounded_pow
      and M = 0 and E = 0]
  have le: "3 \<le> maxReconnectAttempts initial_service" "(3::nat) \<le> 30"
    "maxReconnectAttempts initial_service < 6"
    by (simp_all add: m)
  let ?half = "initial_service\<lparr>reconnectInterval := 500\<rparr>"
  have h2: "no_navigation ?half" "reconnectAttempts ?half = 0" "(1::nat) \<le> 2"
    by (simp_all add: no_navigation_def initial_service_def loadState_isNavigating_def)
  have p2: "correctly_rounded_pow (3 / 2) (2 - 1) = Finite ((3 / 2) ^ (2 - 1))"
    by (rule correctly_rounded_pow_exact) simp
  have r2: "2 \<le> maxReconnectAttempts ?half
      \<and> reconnectInterval ?half * (3 / 2) ^ (2 - 1) = of_int 750 * pow2 0
      \<and> \<bar>750 :: int\<bar> < 2 ^ 53 \<and> - 1074 \<le> (0::int) \<and> \<bar>of_int 750 * pow2 0\<bar> < 2 ^ 1024"
    by (simp add: initial_service_def pow2_def)
  from reconnect_backoff_outside_navigation [OF h2, where pow = correctly_rounded_pow
      and M = 750 and E = 0] p2 r2
  have "nth_unclean_action correctly_rounded_pow 2 ?half
      = BackoffReconnect (Finite (reconnectInterval ?half * (3 / 2) ^ (2 - 1)))"
    by blast
  then have a2: "nth_unclean_action correctly_rounded_pow 2 ?half = BackoffReconnect (Finite 750)"
    by simp
  from t3 le p m(2)
  have a3: "nth_unclean_action correctly_rounded_pow 3 initial_service
      = BackoffReconnect (Finite (1000 * (3 / 2) ^ (3 - 1)))"
    by blast
  have a: "nth_unclean_action correctly_rounded_pow 3 initial_service = BackoffReconnect (Finite 2250)"
    using a3 unfolding v .
  from t6 le
  have b: "nth_unclean_action correctly_rounded_pow 6 initial_service = GiveUp"
    by blast
  have "isNavigating (initial_service\<lparr>preserveConnection := True\<rparr>)
      \<or> preserveConnection (initial_service\<lparr>preserveConnection := True\<rparr>)
      \<or> loadState_isNavigating (initial_service\<lparr>preserveConnection := True\<rparr>)"
    by simp
  with t3
  have c: "handleDisconnect correctly_rounded_pow False (initial_service\<lparr>preserveConnection := True\<rparr>)
       = (initial_service\<lparr>preserveConnection := True, reconnectAttempts := 0\<rparr>,
          NavigationReconnect 100)"
    by (simp add: initial_service_def)
  from a a2 b c show ?thesis by simp
qed

text \<open>
  From attempt 31 on, the product for the default interval is no longer a double and
  the delay is a rounded value: \<open>1000 * 1.5 ^ 30\<close> is \<open>25736391511831125 / 2^27\<close>,
  with a 55-bit numerator.
\<close>

lemma backoff_rounded_at_31:
  "nth_unclean_action correctly_rounded_pow 31 (initial_service\<lparr>maxReconnectAttempts := 31\<rparr>)
     = BackoffReconnect (Finite (6434097877957781 / 33554432))
   \<and> (6434097877957781 / 33554432 :: rat) \<noteq> 1000 * (3 / 2) ^ 30"
proof -
  have h: "no_navigation (initial_service\<lparr>maxReconnectAttempts := 31\<rparr>)"
    "reconnectAttempts (initial_service\<lparr>maxReconnectAttempts := 31\<rparr>) = 0"
    by (simp_all add: no_navigation_def initial_service_def loadState_isNavigating_def)
  have "nth_unclean_action correctly_rounded_pow 31 (initial_service\<lparr>maxReconnectAttempts := 31\<rparr>)
      = BackoffReconnect (js_times 1000 (correctly_rounded_pow (3 / 2) 30))"
    using after_unclean_fields [OF h, of correctly_rounded_pow 30]
    by (simp add: nth_unclean_action_def handleDisconnect_def no_navigation_def Let_def
        initial_service_def)
  moreover have "(6434097877957781 / 33554432 :: rat) \<noteq> 1000 * (3 / 2) ^ 30"
    by (simp add: power_divide)
  ultimately show ?thesis by (simp add: rounded_from_31)
qed

lemma disconnect_after_game_start:
  "handleDisconnect correctly_rounded_pow False
       (service (handleGameStarted no_turn_message room_with_alice))
     = (service (handleGameStarted no_turn_message room_with_alice), NavigationReconnect 100)"
  by code_simp

text \<open>
  C2 as stated fails during a navigation: with \<^verbatim>\<open>preserveConnection\<close> set (as
  \<^verbatim>\<open>handleGameStarted\<close> leaves it) and the counter already at the cap of five, an
  unclean disconnection still schedules a reconnection, after 100 ms rather than after
  \<open>1000 * 1.5 ^ (n - 1)\<close> for any \<open>n\<close> up to the cap, and resets the counter.
\<close>

theorem reconnect_backoff_counterexample:
  "handleDisconnect correctly_rounded_pow False
     (initial_service\<lparr>reconnectAttempts := 5, isNavigating := True, preserveConnection := True\<rparr>)
   = (initial_service\<lparr>reconnectAttempts := 0, isNavigating := True, preserveConnection := True\<rparr>,
      NavigationReconnect 100)
   \<and> NavigationReconnect 100 \<noteq> GiveUp
   \<and> NavigationReconnect 100 \<notin> {BackoffReconnect (Finite (1000 * (3 / 2) ^ 0)),
        BackoffReconnect (Finite (1000 * (3 / 2) ^ 1)), BackoffReconnect (Finite (1000 * (3 / 2) ^ 2)),
        BackoffReconnect (Finite (1000 * (3 / 2) ^ 3)), BackoffReconnect (Finite (1000 * (3 / 2) ^ 4))}"
  by (simp add: handleDisconnect_def initial_service_def)

subsection \<open>Disconnection grace period\<close>

lemma timer_step_active:
  assumes "sess_state s = ACTIVE"
  shows "timer_step TransportLoss s = s\<lparr>sess_state := GRACE, countdown := 180\<rparr>"
    and "e \<noteq> TransportLoss \<Longrightarrow> timer_step e s = s"
  using assms by (cases e; simp add: grace_seconds_def)+

lemma timer_step_grace:
  assumes "sess_state s = GRACE"
  shows "timer_step Reconnected s = s\<lparr>sess_state := ACTIVE\<rparr>"
    and "timer_step TransportLoss s = s"
    and "countdown s \<le> d \<Longrightarrow>
      timer_step (Elapsed d) s = s\<lparr>sess_state := FORFEITED, countdown := 0\<rparr>"
    and "d < countdown s \<Longrightarrow> timer_step (Elapsed d) s = s\<lparr>countdown := countdown s - d\<rparr>"
  using assms by simp_all

lemma run_timer_final:
  "sess_state s \<in> {FORFEITED, CLOSED, CONNECTING} \<Longrightarrow> run_timer es s = s"
  by (induction es arbitrary: s) auto

lemma run_timer_grace:
  assumes "sess_state s = GRACE" "0 < countdown s" "Reconnected \<notin> set es"
  shows "run_timer es s =
     (if countdown s \<le> elapsed_total es then s\<lparr>sess_state := FORFEITED, countdown := 0\<rparr>
      else s\<lparr>countdown := countdown s - elapsed_total es\<rparr>)"
  using assms
proof (induction es arbitrary: s)
  case Nil
  then show ?case by simp
next
  case (Cons e es)
  show ?case
  proof (cases e)
    case TransportLoss
    with Cons show ?thesis by simp
  next
    case Reconnected
    with Cons.prems show ?thesis by simp
  next
    case (Elapsed d)
    show ?thesis
    proof (cases "countdown s \<le> d")
      case True
      then have "timer_step e s = s\<lparr>sess_state := FORFEITED, countdown := 0\<rparr>"
        using Cons.prems Elapsed by simp
      then show ?thesis using True Elapsed by (simp add: run_timer_final)
    next
      case False
      let ?s = "s\<lparr>countdown := countdown s - d\<rparr>"
      have st: "timer_step e s = ?s" using Cons.prems Elapsed False by simp
      have "run_timer es ?s =
         (if countdown ?s \<le> elapsed_total es then ?s\<lparr>sess_state := FORFEITED, countdown := 0\<rparr>
          else ?s\<lparr>countdown := countdown ?s - elapsed_total es\<rparr>)"
        using Cons.prems False by (intro Cons.IH) auto
      then show ?thesis using False Elapsed st by (auto simp del: timer_step.simps)
    qed
  qed
qed

lemma run_timer_append: "run_timer (es @ fs) s = run_timer fs (run_timer es s)"
  by (induction es arbitrary: s) auto

lemma run_timer_reconnect:
  assumes "sess_state s = GRACE" "0 < countdown s" "Reconnected \<notin> set es"
  shows "run_timer (es @ [Reconnected]) s =
     (if countdown s \<le> elapsed_total es then s\<lparr>sess_state := FORFEITED, countdown := 0\<rparr>
      else s\<lparr>sess_state := ACTIVE, countdown := countdown s - elapsed_total es\<rparr>)"
  using assms by (simp add: run_timer_append run_timer_grace)

lemma elapsed_ticks: "elapsed_total (ticks k) = 30 * k"
  by (induction k) (auto simp: ticks_def tick_seconds_def)

lemma ticks_no_reconnect: "Reconnected \<notin> set (ticks k)"
  by (auto simp: ticks_def)

lemma run_timer_ticks:
  assumes "sess_state s = ACTIVE"
  shows "sess_state (run_timer (TransportLoss # ticks k) s) = (if 6 \<le> k then FORFEITED else GRACE)"
proof -
  let ?g = "s\<lparr>sess_state := GRACE, countdown := 180\<rparr>"
  have "run_timer (TransportLoss # ticks k) s = run_timer (ticks k) ?g"
    using assms by (simp add: grace_seconds_def)
  also have "\<dots> = (if countdown ?g \<le> elapsed_total (ticks k)
      then ?g\<lparr>sess_state := FORFEITED, countdown := 0\<rparr>
      else ?g\<lparr>countdown := countdown ?g - elapsed_total (ticks k)\<rparr>)"
    by (intro run_timer_grace) (simp_all add: ticks_no_reconnect)
  finally show ?thesis by (simp add: elapsed_ticks)
qed

text \<open>
  C8. The per-player timer admits exactly these transitions. An ACTIVE player leaves
  ACTIVE only on transport loss, to GRACE with the countdown at 180 seconds. A GRACE
  player returns to ACTIVE on reconnection, is FORFEITED by the elapsed time that uses
  up the countdown, and otherwise stays in GRACE: elapsed time short of the countdown
  is subtracted from it, and a repeated loss signal changes nothing. No event changes
  a FORFEITED, CLOSED or CONNECTING session. Over a run of events without a
  reconnection, a GRACE player is FORFEITED exactly when the time elapsed reaches the
  countdown, and a reconnection at the end of the run restores ACTIVE exactly when it
  has not. With the default countdown and ticks of 30 seconds, a lost player is
  FORFEITED from the sixth tick on.
\<close>

theorem grace_state_machine:
  "(sess_state s = ACTIVE \<longrightarrow>
      timer_step TransportLoss s = s\<lparr>sess_state := GRACE, countdown := 180\<rparr>
      \<and> (e \<noteq> TransportLoss \<longrightarrow> timer_step e s = s)
      \<and> sess_state (run_timer (TransportLoss # ticks k) s) = (if 6 \<le> k then FORFEITED else GRACE))
   \<and> (sess_state s = GRACE \<longrightarrow>
      timer_step Reconnected s = s\<lparr>sess_state := ACTIVE\<rparr>
      \<and> timer_step TransportLoss s = s
      \<and> (countdown s \<le> d \<longrightarrow>
           timer_step (Elapsed d) s = s\<lparr>sess_state := FORFEITED, countdown := 0\<rparr>)
      \<and> (d < countdown s \<longrightarrow> timer_step (Elapsed d) s = s\<lparr>countdown := countdown s - d\<rparr>))
   \<and> (sess_state s \<in> {FORFEITED, CLOSED, CONNECTING} \<longrightarrow> run_timer es s = s)
   \<and> (sess_state s = GRACE \<and> 0 < countdown s \<and> Reconnected \<notin> set es \<longrightarrow>
      run_timer es s =
        (if countdown s \<le> elapsed_total es then s\<lparr>sess_state := FORFEITED, countdown := 0\<rparr>
         else s\<lparr>countdown := countdown s - elapsed_total es\<rparr>)
      \<and> run_timer (es @ [Reconnected]) s =
        (if countdown s \<le> elapsed_total es then s\<lparr>sess_state := FORFEITED, countdown := 0\<rparr>
         else s\<lparr>sess_state := ACTIVE, countdown := countdown s - elapsed_total es\<rparr>))"
  using timer_step_active(1) [of s] timer_step_active(2) [of s e]
    timer_step_grace(1) [of s] timer_step_grace(2) [of s]
    timer_step_grace(3) [of s d] timer_step_grace(4) [of s d]
    run_timer_ticks [of s k] run_timer_final [of s es] run_timer_grace [of s es]
    run_timer_reconnect [of s es]
  by blast

theorem grace_state_machine_witness:
  "timer_step TransportLoss \<lparr>sess_state = ACTIVE, countdown = 0\<rparr>
     = \<lparr>sess_state = GRACE, countdown = 180\<rparr>
   \<and> timer_step Reconnected \<lparr>sess_state = ACTIVE, countdown = 0\<rparr>
     = \<lparr>sess_state = ACTIVE, countdown = 0\<rparr>
   \<and> sess_state (run_timer (TransportLoss # ticks 5) \<lparr>sess_state = ACTIVE, countdown = 0\<rparr>) = GRACE
   \<and> sess_state (run_timer (TransportLoss # ticks 6) \<lparr>sess_state = ACTIVE, countdown = 0\<rparr>)
       = FORFEITED
   \<and> timer_step Reconnected \<lparr>sess_state = GRACE, countdown = 120\<rparr>
     = \<lparr>sess_state = ACTIVE, countdown = 120\<rparr>
   \<and> timer_step TransportLoss \<lparr>sess_state = GRACE, countdown = 120\<rparr>
     = \<lparr>sess_state = GRACE, countdown = 120\<rparr>
   \<and> timer_step (Elapsed 120) \<lparr>sess_state = GRACE, countdown = 120\<rparr>
     = \<lparr>sess_state = FORFEITED, countdown = 0\<rparr>
   \<and> timer_step (Elapsed 30) \<lparr>sess_state = GRACE, countdown = 120\<rparr>
     = \<lparr>sess_state = GRACE, countdown = 90\<rparr>
   \<and> run_timer [Reconnected, TransportLoss, Elapsed 30] \<lparr>sess_state = FORFEITED, countdown = 0\<rparr>
     = \<lparr>sess_state = FORFEITED, countdown = 0\<rparr>
   \<and> run_timer [Elapsed 60, TransportLoss, Elapsed 60] \<lparr>sess_state = GRACE, countdown = 180\<rparr>
     = \<lparr>sess_state = GRACE, countdown = 60\<rparr>
   \<and> run_timer ([Elapsed 60, TransportLoss, Elapsed 60] @ [Reconnected])
        \<lparr>sess_state = GRACE, countdown = 180\<rparr>
     = \<lparr>sess_state = ACTIVE, countdown = 60\<rparr>
   \<and> run_timer ([Elapsed 90, Elapsed 90] @ [Reconnected]) \<lparr>sess_state = GRACE, countdown = 180\<rparr>
     = \<lparr>sess_state = FORFEITED, countdown = 0\<rparr>"
proof -
  let ?a = "\<lparr>sess_state = ACTIVE, countdown = 0\<rparr>"
  let ?g = "\<lparr>sess_state = GRACE, countdown = 120\<rparr>"
  let ?f = "\<lparr>sess_state = FORFEITED, countdown = 0\<rparr>"
  let ?h = "\<lparr>sess_state = GRACE, countdown = 180\<rparr>"
  have a: "timer_step TransportLoss ?a = \<lparr>sess_state = GRACE, countdown = 180\<rparr>"
    "timer_step Reconnected ?a = ?a"
    "sess_state (run_timer (TransportLoss # ticks 5) ?a) = GRACE"
    using grace_state_machine [where s = ?a and e = Reconnected and k = 5] by simp_all
  have b: "sess_state (run_timer (TransportLoss # ticks 6) ?a) = FORFEITED"
    using grace_state_machine [where s = ?a and k = 6] by simp
  have c: "timer_step Reconnected ?g = \<lparr>sess_state = ACTIVE, countdown = 120\<rparr>"
    "timer_step TransportLoss ?g = ?g"
    "timer_step (Elapsed 120) ?g = ?f"
    using grace_state_machine [where s = ?g and d = 120] by simp_all
  have d: "timer_step (Elapsed 30) ?g = \<lparr>sess_state = GRACE, countdown = 90\<rparr>"
    using grace_state_machine [where s = ?g and d = 30] by simp
  have e: "run_timer [Reconnected, TransportLoss, Elapsed 30] ?f = ?f"
    using grace_state_machine [where s = ?f and es = "[Reconnected, TransportLoss, Elapsed 30]"]
    by simp
  have f: "run_timer [Elapsed 60, TransportLoss, Elapsed 60] ?h
      = \<lparr>sess_state = GRACE, countdown = 60\<rparr>"
    "run_timer ([Elapsed 60, TransportLoss, Elapsed 60] @ [Reconnected]) ?h
      = \<lparr>sess_state = ACTIVE, countdown = 60\<rparr>"
    using grace_state_machine [where s = ?h and es = "[Elapsed 60, TransportLoss, Elapsed 60]"]
    by simp_all
  have g: "run_timer ([Elapsed 90, Elapsed 90] @ [Reconnected]) ?h = ?f"
    using grace_state_machine [where s = ?h and es = "[Elapsed 90, Elapsed 90]"]
    by simp
  from a b c d e f g show ?thesis by blast
qed

subsection \<open>Delivery lanes\<close>

lemma replace_all_match:
  "pat \<noteq> [] \<Longrightarrow> replace_all pat repl (pat @ y) = repl @ replace_all pat repl y"
  by (cases pat) auto

lemma replace_all_step:
  "s \<noteq> [] \<Longrightarrow>
   replace_all pat repl s =
     (if pat \<noteq> [] \<and> take (length pat) s = pat
      then repl @ replace_all pat repl (drop (length pat) s)
      else hd s # replace_all pat repl (tl s))"
  by (cases s) simp_all

lemma replace_all_before:
  assumes "pat \<noteq> []" "no_reach pat t"
  shows "replace_all pat repl (x @ t @ y) = replace_all pat repl x @ replace_all pat repl (t @ y)"
proof (induction x rule: length_induct)
  case (1 x)
  show ?case
  proof (cases "x = []")
    case True
    then show ?thesis by simp
  next
    case False
    then have ne: "x @ t @ y \<noteq> []" by simp
    show ?thesis
    proof (cases "take (length pat) (x @ t @ y) = pat")
      case True
      have le: "length pat \<le> length x"
      proof (rule ccontr)
        assume "\<not> length pat \<le> length x"
        then have lt: "length x < length pat" by simp
        define k where "k = length pat - length x"
        have "1 \<le> length x" using False by (cases x) simp_all
        then have "1 \<le> k \<and> k < length pat" using lt unfolding k_def by arith
        then have k: "k \<in> set [1..<length pat]" by simp
        have "drop (length x) pat = drop (length x) (take (length pat) (x @ t @ y))"
          using True by simp
        also have "\<dots> = take k (t @ y)"
          using lt by (simp add: drop_take k_def)
        finally have "take (length t) (drop (length pat - k) pat) = take (length t) (take k (t @ y))"
          using lt by (simp add: k_def)
        also have "\<dots> = take k t"
          by (cases "k \<le> length t") (simp_all add: min_def)
        finally show False using assms(2) k by (auto simp: no_reach_def)
      qed
      then have m: "take (length pat) x = pat" using True by simp
      have d: "drop (length pat) (x @ t @ y) = drop (length pat) x @ t @ y"
        using le by simp
      have s: "length (drop (length pat) x) < length x"
        using assms(1) False by simp
      have a: "replace_all pat repl (x @ t @ y)
          = repl @ replace_all pat repl (drop (length pat) x @ t @ y)"
        using True assms(1) d by (subst replace_all_step [OF ne]) simp
      have b: "replace_all pat repl (drop (length pat) x @ t @ y)
          = replace_all pat repl (drop (length pat) x) @ replace_all pat repl (t @ y)"
        using 1 s by simp
      have c: "replace_all pat repl x = repl @ replace_all pat repl (drop (length pat) x)"
        using m assms(1) by (subst replace_all_step [OF False]) simp
      show ?thesis unfolding a b c by simp
    next
      case nomatch: False
      have n: "take (length pat) x \<noteq> pat"
      proof
        assume a: "take (length pat) x = pat"
        then have "length (take (length pat) x) = length pat" by simp
        then have "length pat \<le> length x" by simp
        then have "take (length pat) (x @ t @ y) = take (length pat) x" by simp
        with a nomatch show False by metis
      qed
      have tl: "tl (x @ t @ y) = tl x @ t @ y" "hd (x @ t @ y) = hd x"
        using False by simp_all
      have a: "replace_all pat repl (x @ t @ y) = hd x # replace_all pat repl (tl x @ t @ y)"
        using nomatch tl by (subst replace_all_step [OF ne]) simp
      have b: "replace_all pat repl (tl x @ t @ y)
          = replace_all pat repl (tl x) @ replace_all pat repl (t @ y)"
        using 1 False by simp
      have c: "replace_all pat repl x = hd x # replace_all pat repl (tl x)"
        using n by (subst replace_all_step [OF False]) simp
      show ?thesis unfolding a b c by simp
    qed
  qed
qed

lemma replace_all_inside:
  assumes "no_start pat t"
  shows "replace_all pat repl (t @ y) = t @ replace_all pat repl y"
  using assms
proof (induction t)
  case Nil
  then show ?case by simp
next
  case (Cons c cs)
  have "take (length pat) ((c # cs) @ y) \<noteq> pat"
  proof
    assume a: "take (length pat) ((c # cs) @ y) = pat"
    have "take (length pat) (c # cs) = take (length (c # cs)) pat"
    proof (cases "length pat \<le> length (c # cs)")
      case True
      then have "take (length pat) ((c # cs) @ y) = take (length pat) (c # cs)"
        by (simp del: append_Cons)
      with a True show ?thesis by (simp del: append_Cons)
    next
      case False
      then have "take (length (c # cs)) pat = take (length (c # cs)) (take (length pat) ((c # cs) @ y))"
        using a by simp
      also have "\<dots> = c # cs" using False by (simp add: min_def del: append_Cons)
      finally show ?thesis using False by simp
    qed
    with Cons.prems show False by simp
  qed
  with Cons show ?case by simp
qed

lemma replace_all_apart:
  assumes "apart pat t"
  shows "replace_all pat repl (x @ t @ y) = replace_all pat repl x @ t @ replace_all pat repl y"
  using assms replace_all_before [of pat t repl x y] replace_all_inside [of pat t repl y]
  by (simp add: apart_def)

lemma replace_all_occurrence:
  assumes "pat \<noteq> []" "no_reach pat pat"
  shows "replace_all pat repl (x @ pat @ y) = replace_all pat repl x @ repl @ replace_all pat repl y"
  using assms replace_all_before [of pat pat repl x y] replace_all_match [of pat repl y]
  by simp


lemma error_call_apart:
  "send_call ''c.gameID'' ''errorJSON'' \<noteq> []"
  "no_reach (send_call ''c.gameID'' ''errorJSON'') (send_call ''c.gameID'' ''errorJSON'')"
  "apart (send_call ''c.gameID'' ''ackBytes'') (priority_call ''c.gameID'' ''errorJSON'' PriorityHigh)"
  "apart (send_call ''c.gameID'' ''responseJSON'') (priority_call ''c.gameID'' ''errorJSON'' PriorityHigh)"
  "apart (send_call ''gameID'' ''confirmationJSON'') (priority_call ''c.gameID'' ''errorJSON'' PriorityHigh)"
  by code_simp+

lemma ack_call_apart:
  "send_call ''c.gameID'' ''ackBytes'' \<noteq> []"
  "apart (send_call ''c.gameID'' ''errorJSON'') (send_call ''c.gameID'' ''ackBytes'')"
  "no_reach (send_call ''c.gameID'' ''ackBytes'') (send_call ''c.gameID'' ''ackBytes'')"
  "apart (send_call ''c.gameID'' ''responseJSON'') (priority_call ''c.gameID'' ''ackBytes'' PriorityNormal)"
  "apart (send_call ''gameID'' ''confirmationJSON'') (priority_call ''c.gameID'' ''ackBytes'' PriorityNormal)"
  by code_simp+

lemma response_call_apart:
  "send_call ''c.gameID'' ''responseJSON'' \<noteq> []"
  "apart (send_call ''c.gameID'' ''errorJSON'') (send_call ''c.gameID'' ''responseJSON'')"
  "apart (send_call ''c.gameID'' ''ackBytes'') (send_call ''c.gameID'' ''responseJSON'')"
  "no_reach (send_call ''c.gameID'' ''responseJSON'') (send_call ''c.gameID'' ''responseJSON'')"
  "apart (send_call ''gameID'' ''confirmationJSON'') (priority_call ''c.gameID'' ''responseJSON'' PriorityNormal)"
  by code_simp+

lemma confirmation_call_apart:
  "send_call ''gameID'' ''confirmationJSON'' \<noteq> []"
  "apart (send_call ''c.gameID'' ''errorJSON'') (send_call ''gameID'' ''confirmationJSON'')"
  "apart (send_call ''c.gameID'' ''ackBytes'') (send_call ''gameID'' ''confirmationJSON'')"
  "apart (send_call ''c.gameID'' ''responseJSON'') (send_call ''gameID'' ''confirmationJSON'')"
  "no_reach (send_call ''gameID'' ''confirmationJSON'') (send_call ''gameID'' ''confirmationJSON'')"
  by code_simp+

lemma migrate_error_call:
  "migrate_line (x @ send_call ''c.gameID'' ''errorJSON'' @ y)
     = migrate_line x @ priority_call ''c.gameID'' ''errorJSON'' PriorityHigh @ migrate_line y"
  unfolding migrate_line_def
  by (simp only: replace_all_occurrence [OF error_call_apart(1,2)]
      replace_all_apart [OF error_call_apart(3)] replace_all_apart [OF error_call_apart(4)]
      replace_all_apart [OF error_call_apart(5)])

lemma migrate_ack_call:
  "migrate_line (x @ send_call ''c.gameID'' ''ackBytes'' @ y)
     = migrate_line x @ priority_call ''c.gameID'' ''ackBytes'' PriorityNormal @ migrate_line y"
  unfolding migrate_line_def
  by (simp only: replace_all_apart [OF ack_call_apart(2)]
      replace_all_occurrence [OF ack_call_apart(1,3)]
      replace_all_apart [OF ack_call_apart(4)] replace_all_apart [OF ack_call_apart(5)])

lemma migrate_response_call:
  "migrate_line (x @ send_call ''c.gameID'' ''responseJSON'' @ y)
     = migrate_line x @ priority_call ''c.gameID'' ''responseJSON'' PriorityNormal @ migrate_line y"
  unfolding migrate_line_def
  by (simp only: replace_all_apart [OF response_call_apart(2)]
      replace_all_apart [OF response_call_apart(3)]
      replace_all_occurrence [OF response_call_apart(1,4)]
      replace_all_apart [OF response_call_apart(5)])

lemma migrate_confirmation_call:
  "migrate_line (x @ send_call ''gameID'' ''confirmationJSON'' @ y)
     = migrate_line x @ priority_call ''gameID'' ''confirmationJSON'' PriorityNormal @ migrate_line y"
  unfolding migrate_line_def
  by (simp only: replace_all_apart [OF confirmation_call_apart(2)]
      replace_all_apart [OF confirmation_call_apart(3)]
      replace_all_apart [OF confirmation_call_apart(4)]
      replace_all_occurrence [OF confirmation_call_apart(1,5)])

lemma replace_all_absent: "pat \<noteq> [] \<Longrightarrow> \<not> occurs pat l \<Longrightarrow> replace_all pat repl l = l"
  by (induction l) auto

lemma migrate_line_unchanged:
  assumes "\<not> occurs (send_call ''c.gameID'' ''errorJSON'') l"
    "\<not> occurs (send_call ''c.gameID'' ''ackBytes'') l"
    "\<not> occurs (send_call ''c.gameID'' ''responseJSON'') l"
    "\<not> occurs (send_call ''gameID'' ''confirmationJSON'') l"
  shows "migrate_line l = l"
  using assms
  by (simp add: migrate_line_def replace_all_absent error_call_apart(1) ack_call_apart(1)
      response_call_apart(1) confirmation_call_apart(1))

text \<open>
  C9, as the code has it. The lane of a direct send is determined by the kind of its
  payload: wherever one of the four calls stands in a line of \<^verbatim>\<open>hub.go\<close>, whatever
  precedes and follows it, the migration rewrites the call that sends an error to use
  \<^verbatim>\<open>PriorityHigh\<close> and the calls that send an acknowledgement, a response or a
  confirmation to use \<^verbatim>\<open>PriorityNormal\<close>, and goes on with the rest of the line. No
  send with \<^verbatim>\<open>PriorityLow\<close> occurs in the sources.
\<close>

theorem migration_assigns_lanes:
  "migrate_line (x @ send_call ''c.gameID'' ''errorJSON'' @ y)
     = migrate_line x @ priority_call ''c.gameID'' ''errorJSON'' PriorityHigh @ migrate_line y
   \<and> migrate_line (x @ send_call ''c.gameID'' ''ackBytes'' @ y)
     = migrate_line x @ priority_call ''c.gameID'' ''ackBytes'' PriorityNormal @ migrate_line y
   \<and> migrate_line (x @ send_call ''c.gameID'' ''responseJSON'' @ y)
     = migrate_line x @ priority_call ''c.gameID'' ''responseJSON'' PriorityNormal @ migrate_line y
   \<and> migrate_line (x @ send_call ''gameID'' ''confirmationJSON'' @ y)
     = migrate_line x @ priority_call ''gameID'' ''confirmationJSON'' PriorityNormal
         @ migrate_line y"
  using migrate_error_call [of x y] migrate_ack_call [of x y] migrate_response_call [of x y]
    migrate_confirmation_call [of x y]
  by blast

lemma migrate_indented_line:
  "migrate_line (''    if err := c.hub.SendToPlayer(c.gameID, c.playerID, ackBytes); err != nil {'')
     = ''    if err := c.hub.SendToPlayerWithPriority(c.gameID, c.playerID, ackBytes, PriorityNormal); err != nil {''"
  by code_simp

text \<open>
  C9 as stated fails for acknowledgements: the call sending \<^verbatim>\<open>ackBytes\<close> is rewritten
  to use \<^verbatim>\<open>PriorityNormal\<close>, not \<^verbatim>\<open>PriorityHigh\<close>.
\<close>

theorem ack_lane_counterexample:
  "migrate_line ''c.hub.SendToPlayer(c.gameID, c.playerID, ackBytes)''
     = ''c.hub.SendToPlayerWithPriority(c.gameID, c.playerID, ackBytes, PriorityNormal)''
   \<and> migrate_line ''c.hub.SendToPlayer(c.gameID, c.playerID, ackBytes)''
     \<noteq> ''c.hub.SendToPlayerWithPriority(c.gameID, c.playerID, ackBytes, PriorityHigh)''"
  by code_simp

subsection \<open>Authentication\<close>

lemma split_on_no_sep: "sep \<notin> set s \<Longrightarrow> split_on sep s = [s]"
  by (induction s) auto

lemma split_on_bearer:
  assumes "CHR '' '' \<notin> set tok"
  shows "split_on CHR '' '' (''Bearer '' @ tok) = [''Bearer'', tok]"
  using split_on_no_sep [OF assms] by simp

lemma to_lower_Bearer: "to_lower ''Bearer'' = ''bearer''"
  by code_simp

lemma is_hmac_HS256: "is_hmac HS256"
  by (simp add: is_hmac_def)

lemma JWTMiddleware_rejects:
  "\<not> bearer_verified lib secret now hdr \<Longrightarrow> \<exists>msg. JWTMiddleware lib secret now hdr = Inl (401, msg)"
  by (auto simp: JWTMiddleware_def bearer_verified_def ParseWithClaims_def keyFunc_def
      split: list.splits option.splits if_splits)

lemma JWTMiddleware_accepts:
  "bearer_verified lib secret now hdr \<Longrightarrow> \<exists>ctx. JWTMiddleware lib secret now hdr = Inr ctx"
  by (auto simp: JWTMiddleware_def bearer_verified_def ParseWithClaims_def keyFunc_def
      split: list.splits option.splits if_splits)

lemma WalletConnect_enabled:
  assumes "validation_on h"
  shows "is_json_response (fst (WalletConnect cr lib h (Some r) qf ff newID t1 t2))
     \<longleftrightarrow> required_fields r \<and> signature_verified cr r (request_format r qf ff)"
    and "\<not> (required_fields r \<and> signature_verified cr r (request_format r qf ff))
       \<Longrightarrow> is_rejection (fst (WalletConnect cr lib h (Some r) qf ff newID t1 t2))"
  using assms
  by (auto simp: WalletConnect_def validation_on_def required_fields_def signature_verified_def
      VerifySignature_def is_json_response_def is_rejection_def Let_def
      split: option.splits sum.splits if_splits)

lemma WalletConnect_disabled:
  assumes "cfg h = Some conf"
    and "Solana_DevMode conf \<or> (\<exists>v. handler_validator h = Some v \<and> \<not> enabled v)"
    and "required_fields r"
  shows "fst (WalletConnect cr lib h (Some r) qf ff newID t1 t2)
     = JSONResponse 200 \<lparr>resp_userID = newID, resp_walletAddress = req_walletAddress r,
         resp_token = GenerateJWT lib newID (req_walletAddress r) (JWT_Secret conf)
            (JWT_Expiration conf) t1 t2\<rparr>"
  using assms
  by (auto simp: WalletConnect_def required_fields_def VerifySignature_def Let_def
      split: option.splits sum.splits if_splits)

text \<open>
  C6, as the code has it. The JWT middleware answers 401 Unauthorized to every request
  whose bearer credential is missing, malformed, wrongly signed or expired, and lets a
  request through only when the credential is verified. Wallet sign-in with validation
  on issues a token exactly when the required fields are present and the signature is
  verified, and otherwise rejects with 400 (undecodable input) or 401 (signature check
  failed). With validation off (development mode, or a disabled validator) every
  request with the required fields is answered with a token, without any check of the
  signature.
\<close>

theorem credentials_checked:
  "(\<not> bearer_verified lib secret now hdr \<longrightarrow>
      (\<exists>msg. JWTMiddleware lib secret now hdr = Inl (401, msg)))
   \<and> (bearer_verified lib secret now hdr \<longrightarrow>
      (\<exists>ctx. JWTMiddleware lib secret now hdr = Inr ctx))
   \<and> (validation_on h \<longrightarrow>
      (is_json_response (fst (WalletConnect cr lib h (Some r) qf ff newID t1 t2))
         \<longleftrightarrow> required_fields r \<and> signature_verified cr r (request_format r qf ff))
      \<and> (\<not> (required_fields r \<and> signature_verified cr r (request_format r qf ff)) \<longrightarrow>
           is_rejection (fst (WalletConnect cr lib h (Some r) qf ff newID t1 t2))))
   \<and> (cfg h = Some conf
        \<and> (Solana_DevMode conf \<or> (\<exists>v. handler_validator h = Some v \<and> \<not> enabled v))
        \<and> required_fields r \<longrightarrow>
      fst (WalletConnect cr lib h (Some r) qf ff newID t1 t2)
        = JSONResponse 200 \<lparr>resp_userID = newID, resp_walletAddress = req_walletAddress r,
            resp_token = GenerateJWT lib newID (req_walletAddress r) (JWT_Secret conf)
               (JWT_Expiration conf) t1 t2\<rparr>)"
  using JWTMiddleware_rejects [where lib = lib and secret = secret and now = now and hdr = hdr]
    JWTMiddleware_accepts [where lib = lib and secret = secret and now = now and hdr = hdr]
    WalletConnect_enabled [where h = h and cr = cr and lib = lib and r = r and qf = qf
      and ff = ff and newID = newID and ?t1.0 = t1 and ?t2.0 = t2]
    WalletConnect_disabled [where h = h and conf = conf and cr = cr and lib = lib and r = r
      and qf = qf and ff = ff and newID = newID and ?t1.0 = t1 and ?t2.0 = t2]
  by blast

theorem credentials_checked_witness:
  "(\<exists>msg. JWTMiddleware sample_lib ''secret'' 1000 [] = Inl (401, msg))
   \<and> (\<exists>ctx. JWTMiddleware sample_lib ''secret'' 1000 ''bearer h.user-1.secret:user-1'' = Inr ctx)
   \<and> is_json_response (fst (WalletConnect accepting_crypto sample_lib
        (NewAuthHandler (Some prod_config)) (Some signed_request) [] [] ''user-2'' 0 0))
   \<and> is_rejection (fst (WalletConnect rejecting_crypto sample_lib
        (NewAuthHandler (Some prod_config)) (Some forged_request) [] [] ''user-2'' 0 0))
   \<and> fst (WalletConnect rejecting_crypto sample_lib
        (NewAuthHandler (Some dev_config)) (Some forged_request) [] [] ''user-2'' 0 0)
      = JSONResponse 200 \<lparr>resp_userID = ''user-2'', resp_walletAddress = ''not-a-wallet'',
          resp_token = ''h.user-2.secret:user-2''\<rparr>"
proof -
  have v: "validation_on (NewAuthHandler (Some prod_config))"
    by (simp add: validation_on_def NewAuthHandler_def prod_config_def NewSolanaValidator_def)
  have d: "cfg (NewAuthHandler (Some dev_config)) = Some dev_config
      \<and> (Solana_DevMode dev_config
         \<or> (\<exists>v. handler_validator (NewAuthHandler (Some dev_config)) = Some v \<and> \<not> enabled v))
      \<and> required_fields forged_request"
    by (simp add: NewAuthHandler_def dev_config_def required_fields_def forged_request_def)
  have n: "\<not> bearer_verified sample_lib ''secret'' 1000 []"
    by (simp add: bearer_verified_def)
  have y: "bearer_verified sample_lib ''secret'' 1000 ''bearer h.user-1.secret:user-1''"
    by (simp add: bearer_verified_def sample_lib_def sample_claims_def generated_claims_def
        expiration_duration_def is_hmac_def to_lower_def ascii_lower_def)
  have s: "required_fields signed_request
      \<and> signature_verified accepting_crypto signed_request (request_format signed_request [] [])"
    by (simp add: required_fields_def signature_verified_def signed_request_def
        accepting_crypto_def request_format_def decode_signature_def to_lower_def ascii_lower_def)
  have f: "\<not> (required_fields forged_request
      \<and> signature_verified rejecting_crypto forged_request (request_format forged_request [] []))"
    by (simp add: signature_verified_def rejecting_crypto_def)
  have g: "GenerateJWT sample_lib ''user-2'' ''not-a-wallet''
      (JWT_Secret dev_config) (JWT_Expiration dev_config) 0 0 = ''h.user-2.secret:user-2''"
    by (simp add: GenerateJWT_def sample_lib_def generated_claims_def dev_config_def)
  have w: "req_walletAddress forged_request = ''not-a-wallet''"
    by (simp add: forged_request_def)
  from credentials_checked [where lib = sample_lib and secret = "''secret''" and now = 1000
      and hdr = "[]"] n
  have 1: "\<exists>msg. JWTMiddleware sample_lib ''secret'' 1000 [] = Inl (401, msg)"
    by blast
  from credentials_checked [where lib = sample_lib and secret = "''secret''" and now = 1000
      and hdr = "''bearer h.user-1.secret:user-1''"] y
  have 2: "\<exists>ctx. JWTMiddleware sample_lib ''secret'' 1000 ''bearer h.user-1.secret:user-1'' = Inr ctx"
    by blast
  from credentials_checked [where h = "NewAuthHandler (Some prod_config)" and cr = accepting_crypto
      and lib = sample_lib and r = signed_request and qf = "[]" and ff = "[]" and newID = "''user-2''"
      and ?t1.0 = 0 and ?t2.0 = 0] v s
  have 3: "is_json_response (fst (WalletConnect accepting_crypto sample_lib
        (NewAuthHandler (Some prod_config)) (Some signed_request) [] [] ''user-2'' 0 0))"
    by blast
  from credentials_checked [where h = "NewAuthHandler (Some prod_config)" and cr = rejecting_crypto
      and lib = sample_lib and r = forged_request and qf = "[]" and ff = "[]" and newID = "''user-2''"
      and ?t1.0 = 0 and ?t2.0 = 0] v f
  have 4: "is_rejection (fst (WalletConnect rejecting_crypto sample_lib
        (NewAuthHandler (Some prod_config)) (Some forged_request) [] [] ''user-2'' 0 0))"
    by blast
  from credentials_checked [where h = "NewAuthHandler (Some dev_config)" and cr = rejecting_crypto
      and lib = sample_lib and r = forged_request and qf = "[]" and ff = "[]" and newID = "''user-2''"
      and ?t1.0 = 0 and ?t2.0 = 0 and conf = dev_config] d
  have 5: "fst (WalletConnect rejecting_crypto sample_lib
        (NewAuthHandler (Some dev_config)) (Some forged_request) [] [] ''user-2'' 0 0)
      = JSONResponse 200 \<lparr>resp_userID = ''user-2'', resp_walletAddress = ''not-a-wallet'',
          resp_token = ''h.user-2.secret:user-2''\<rparr>"
    by (simp add: g w)
  from 1 2 3 4 5 show ?thesis by blast
qed

text \<open>
  C6 as stated fails on wallet sign-in. In development mode a request whose address is
  no public key and whose signature neither decodes nor verifies is answered 200 with
  a token: the disabled validator reports the signature valid without looking at it.
  With validation on, the same request is rejected with 400 Bad Request, not with an
  Unauthorized error.
\<close>

theorem unverified_credential_counterexample:
  "fst (WalletConnect rejecting_crypto sample_lib (NewAuthHandler (Some dev_config))
          (Some forged_request) [] [] ''user-9'' 0 0)
     = JSONResponse 200 \<lparr>resp_userID = ''user-9'', resp_walletAddress = ''not-a-wallet'',
         resp_token = ''h.user-9.secret:user-9''\<rparr>
   \<and> \<not> signature_verified rejecting_crypto forged_request ''hex''
   \<and> VerifySignature rejecting_crypto (NewSolanaValidator\<lparr>enabled := False\<rparr>)
        ''not-a-wallet'' ''anything'' ''garbage'' ''hex'' = (True, None)
   \<and> fst (WalletConnect rejecting_crypto sample_lib (NewAuthHandler (Some prod_config))
          (Some forged_request) [] [] ''user-9'' 0 0)
     = HTTPError 400 ''Invalid signature: invalid wallet address''"
  by (simp add: WalletConnect_def NewAuthHandler_def dev_config_def prod_config_def
      forged_request_def VerifySignature_def NewSolanaValidator_def request_format_def
      GenerateJWT_def sample_lib_def generated_claims_def signature_verified_def
      rejecting_crypto_def)

subsection \<open>Token round trip\<close>

lemma bit_char_simps: "(bit_char b = CHR ''1'') = b" "bit_char b \<noteq> CHR ''.''" "bit_char b \<noteq> CHR '' ''"
  by (simp_all add: bit_char_def)

lemma dec_enc_str: "dec_str (enc_str s) = s"
proof (induction s)
  case Nil
  then show ?case by (simp add: enc_str_def)
next
  case (Cons c s)
  then show ?case by (cases c) (simp add: enc_str_def bit_char_simps)
qed

lemma enc_str_chars: "set (enc_str s) \<subseteq> {CHR ''0'', CHR ''1''}"
proof (induction s)
  case Nil
  then show ?case by (simp add: enc_str_def)
next
  case (Cons c s)
  then show ?case by (cases c) (auto simp: enc_str_def bit_char_def)
qed

lemma dec_enc_nat: "dec_nat (enc_nat n) = n"
proof (induction n rule: enc_nat.induct)
  case (1 n)
  show ?case
  proof (cases "n = 0")
    case True
    then show ?thesis by (simp add: enc_nat.simps)
  next
    case False
    with 1 have "dec_nat (enc_nat (n div 2)) = n div 2" by simp
    with False show ?thesis
      by (subst enc_nat.simps) (auto simp: bit_char_simps)
  qed
qed

lemma enc_nat_chars: "set (enc_nat n) \<subseteq> {CHR ''0'', CHR ''1''}"
proof (induction n rule: enc_nat.induct)
  case (1 n)
  show ?case
  proof (cases "n = 0")
    case True
    then show ?thesis by (simp add: enc_nat.simps)
  next
    case False
    with 1 have "set (enc_nat (n div 2)) \<subseteq> {CHR ''0'', CHR ''1''}" by simp
    with False show ?thesis
      by (subst enc_nat.simps) (auto simp: bit_char_def)
  qed
qed

lemma dec_enc_date: "dec_date (enc_date d) = d"
  by (cases d) (auto simp: enc_date_def dec_date_def dec_enc_nat)

lemma enc_nat_no_sep: "CHR ''.'' \<notin> set (enc_nat n)" "CHR '' '' \<notin> set (enc_nat n)"
  using enc_nat_chars [of n] by auto

lemma enc_date_chars: "CHR ''.'' \<notin> set (enc_date d)" "CHR '' '' \<notin> set (enc_date d)"
  by (cases d; simp add: enc_date_def enc_nat_no_sep)+

lemma dec_enc_method: "dec_method (enc_method m) = Some m"
  by (cases m) (simp_all add: enc_method_def dec_method_def)

lemma enc_method_chars: "CHR ''.'' \<notin> set (enc_method m)" "CHR '' '' \<notin> set (enc_method m)"
  by (cases m; simp add: enc_method_def)+

lemma enc_str_no_sep: "CHR ''.'' \<notin> set (enc_str s)" "CHR '' '' \<notin> set (enc_str s)"
  using enc_str_chars [of s] by auto

lemma split_on_field: "sep \<notin> set a \<Longrightarrow> split_on sep (a @ sep # r) = a # split_on sep r"
  by (induction a) (auto split: list.splits)

lemma codec_lib_round_trip:
  "parse_compact codec_lib (compact codec_lib m c sg) = Some (m, c, sg)"
  by (simp add: codec_lib_def split_on_field split_on_no_sep enc_method_chars enc_str_no_sep
      enc_date_chars dec_enc_method dec_enc_str dec_enc_date)

lemma codec_lib_no_space: "CHR '' '' \<notin> set (compact codec_lib m c sg)"
  by (simp add: codec_lib_def enc_method_chars enc_str_no_sep enc_date_chars)

text \<open>
  C10. A token produced by \<^verbatim>\<open>GenerateJWT\<close> with a secret is accepted by
  \<^verbatim>\<open>JWTMiddleware\<close> with the same secret at any time before its expiry, and the
  claims recovered carry the user id and wallet address it was generated with (the
  context receives the wallet address only when it is not empty). What is assumed is
  about the library alone: its parser decodes what its serialiser writes for claims
  with this user id and wallet address, whatever the dates and the signature, and the
  serialiser writes no space.
\<close>

theorem jwt_round_trip:
  assumes codec: "\<And>e i sg.
      parse_compact lib
        (compact lib HS256 \<lparr>UserID = u, WalletAddress = w, ExpiresAt = e, IssuedAt = i\<rparr> sg)
      = Some (HS256, \<lparr>UserID = u, WalletAddress = w, ExpiresAt = e, IssuedAt = i\<rparr>, sg)"
    and no_space: "\<And>e i sg.
      CHR '' '' \<notin> set (compact lib HS256
        \<lparr>UserID = u, WalletAddress = w, ExpiresAt = e, IssuedAt = i\<rparr> sg)"
    and not_expired: "now < ((t1 + expiration_duration h) div 1000000000) * 1000000000"
  shows "ParseWithClaims lib (keyFunc secret) now (GenerateJWT lib u w secret h t1 t2)
           = Inr \<lparr>tok_method = HS256, tok_claims = generated_claims u w h t1 t2, tok_valid = True\<rparr>
       \<and> UserID (generated_claims u w h t1 t2) = u
       \<and> WalletAddress (generated_claims u w h t1 t2) = w
       \<and> JWTMiddleware lib secret now (''Bearer '' @ GenerateJWT lib u w secret h t1 t2)
           = Inr \<lparr>ctx_userID = Some u, ctx_walletAddress = (if w \<noteq> [] then Some w else None)\<rparr>"
proof -
  let ?c = "generated_claims u w h t1 t2"
  let ?tok = "GenerateJWT lib u w secret h t1 t2"
  have tok: "?tok = compact lib HS256 ?c (hmac_sign lib HS256 secret ?c)"
    by (simp add: GenerateJWT_def Let_def)
  have c: "?c = \<lparr>UserID = u, WalletAddress = w,
      ExpiresAt = Some ((t1 + expiration_duration h) div 1000000000),
      IssuedAt = Some (t2 div 1000000000)\<rparr>"
    by (simp add: generated_claims_def)
  have parsed: "parse_compact lib ?tok = Some (HS256, ?c, hmac_sign lib HS256 secret ?c)"
    unfolding tok unfolding c by (rule codec)
  have sp: "CHR '' '' \<notin> set ?tok"
    unfolding tok unfolding c by (rule no_space)
  have e: "ExpiresAt ?c = Some ((t1 + expiration_duration h) div 1000000000)"
    and f: "UserID ?c = u" "WalletAddress ?c = w"
    by (simp_all add: generated_claims_def)
  have p: "ParseWithClaims lib (keyFunc secret) now ?tok
      = Inr \<lparr>tok_method = HS256, tok_claims = ?c, tok_valid = True\<rparr>"
    using not_expired by (simp add: ParseWithClaims_def parsed keyFunc_def is_hmac_HS256 e)
  have m: "JWTMiddleware lib secret now (''Bearer '' @ ?tok)
      = Inr \<lparr>ctx_userID = Some u, ctx_walletAddress = (if w \<noteq> [] then Some w else None)\<rparr>"
    unfolding JWTMiddleware_def split_on_bearer [OF sp]
    by (simp add: to_lower_Bearer p f)
  from p f m show ?thesis by simp
qed

lemma expiration_duration_24: "expiration_duration 24 = 86400000000000"
  by (simp add: expiration_duration_def)

theorem jwt_round_trip_witness:
  "JWTMiddleware codec_lib ''secret'' 1000
       (''Bearer '' @ GenerateJWT codec_lib ''user-1'' ''wallet-1'' ''secret'' 24 0 0)
     = Inr \<lparr>ctx_userID = Some ''user-1'', ctx_walletAddress = Some ''wallet-1''\<rparr>
   \<and> ParseWithClaims codec_lib (keyFunc ''secret'') 1000
       (GenerateJWT codec_lib ''user-1'' ''wallet-1'' ''secret'' 24 0 0)
     = Inr \<lparr>tok_method = HS256, tok_claims = sample_claims, tok_valid = True\<rparr>
   \<and> UserID sample_claims = ''user-1'' \<and> WalletAddress sample_claims = ''wallet-1''"
proof -
  have c: "(1000::int) < ((0 + expiration_duration 24) div 1000000000) * 1000000000"
    by (simp add: expiration_duration_24)
  from jwt_round_trip [where lib = codec_lib and u = "''user-1''" and w = "''wallet-1''"
      and secret = "''secret''", OF codec_lib_round_trip codec_lib_no_space c]
  show ?thesis
    by (simp add: sample_claims_def)
qed

text \<open>
  Under the same assumptions on the library, the token is refused once it has
  expired, and under another secret whenever the two secrets sign its claims
  differently.
\<close>

lemma generated_token_parsed:
  assumes "\<And>e i sg.
      parse_compact lib
        (compact lib HS256 \<lparr>UserID = u, WalletAddress = w, ExpiresAt = e, IssuedAt = i\<rparr> sg)
      = Some (HS256, \<lparr>UserID = u, WalletAddress = w, ExpiresAt = e, IssuedAt = i\<rparr>, sg)"
  shows "parse_compact lib (GenerateJWT lib u w secret h t1 t2)
     = Some (HS256, generated_claims u w h t1 t2,
             hmac_sign lib HS256 secret (generated_claims u w h t1 t2))"
  unfolding GenerateJWT_def Let_def generated_claims_def by (rule assms)

lemma generated_token_no_space:
  assumes "\<And>e i sg.
      CHR '' '' \<notin> set (compact lib HS256
        \<lparr>UserID = u, WalletAddress = w, ExpiresAt = e, IssuedAt = i\<rparr> sg)"
  shows "CHR '' '' \<notin> set (GenerateJWT lib u w secret h t1 t2)"
  unfolding GenerateJWT_def Let_def generated_claims_def by (rule assms)

lemma expired_token_rejected:
  assumes codec: "\<And>e i sg.
      parse_compact lib
        (compact lib HS256 \<lparr>UserID = u, WalletAddress = w, ExpiresAt = e, IssuedAt = i\<rparr> sg)
      = Some (HS256, \<lparr>UserID = u, WalletAddress = w, ExpiresAt = e, IssuedAt = i\<rparr>, sg)"
    and no_space: "\<And>e i sg.
      CHR '' '' \<notin> set (compact lib HS256
        \<lparr>UserID = u, WalletAddress = w, ExpiresAt = e, IssuedAt = i\<rparr> sg)"
    and expired: "((t1 + expiration_duration h) div 1000000000) * 1000000000 \<le> now"
  shows "JWTMiddleware lib secret now (''Bearer '' @ GenerateJWT lib u w secret h t1 t2)
     = Inl (401, ''invalid or expired token'')"
proof -
  note parsed = generated_token_parsed [of lib u w secret h t1 t2, OF codec]
  note sp = generated_token_no_space [of lib u w secret h t1 t2, OF no_space]
  have "ParseWithClaims lib (keyFunc secret) now (GenerateJWT lib u w secret h t1 t2)
      = Inl TokenExpired"
    using expired
    by (simp add: ParseWithClaims_def parsed keyFunc_def is_hmac_HS256 generated_claims_def)
  then show ?thesis
    unfolding JWTMiddleware_def split_on_bearer [OF sp]
    by (simp add: to_lower_Bearer)
qed

lemma other_secret_rejected:
  assumes codec: "\<And>e i sg.
      parse_compact lib
        (compact lib HS256 \<lparr>UserID = u, WalletAddress = w, ExpiresAt = e, IssuedAt = i\<rparr> sg)
      = Some (HS256, \<lparr>UserID = u, WalletAddress = w, ExpiresAt = e, IssuedAt = i\<rparr>, sg)"
    and no_space: "\<And>e i sg.
      CHR '' '' \<notin> set (compact lib HS256
        \<lparr>UserID = u, WalletAddress = w, ExpiresAt = e, IssuedAt = i\<rparr> sg)"
    and differ: "hmac_sign lib HS256 secret (generated_claims u w h t1 t2)
      \<noteq> hmac_sign lib HS256 other (generated_claims u w h t1 t2)"
  shows "JWTMiddleware lib other now (''Bearer '' @ GenerateJWT lib u w secret h t1 t2)
     = Inl (401, ''invalid or expired token'')"
proof -
  note parsed = generated_token_parsed [of lib u w secret h t1 t2, OF codec]
  note sp = generated_token_no_space [of lib u w secret h t1 t2, OF no_space]
  have "ParseWithClaims lib (keyFunc other) now (GenerateJWT lib u w secret h t1 t2)
      = Inl TokenSignatureInvalid"
    using differ by (simp add: ParseWithClaims_def parsed keyFunc_def is_hmac_HS256)
  then show ?thesis
    unfolding JWTMiddleware_def split_on_bearer [OF sp]
    by (simp add: to_lower_Bearer)
qed

subsection \<open>Frame lemmas: what a dispatch leaves alone\<close>

lemma reduce_currentPlayer:
  "currentPlayer (reduce a s) = (case a of SetCurrentPlayer p \<Rightarrow> Some p | _ \<Rightarrow> currentPlayer s)"
  by (cases a) (auto split: option.splits)

lemma reduce_hostId:
  "hostId (reduce a s) = (case a of SetHost h \<Rightarrow> Some h | _ \<Rightarrow> hostId s)"
  by (cases a) (auto split: option.splits)

lemma sync_to_playerSlice_room:
  "currentPlayer (sync_to_playerSlice snap p s) = currentPlayer s"
  "hostId (sync_to_playerSlice snap p s) = hostId s"
  by (auto simp: sync_to_playerSlice_def split: option.splits)

lemma fold_sync_room:
  "currentPlayer (fold (sync_to_playerSlice snap) ps s) = currentPlayer s
   \<and> hostId (fold (sync_to_playerSlice snap) ps s) = hostId s"
  by (induction ps arbitrary: s) (simp_all add: sync_to_playerSlice_room)


lemma dispatch_hostId:
  "hostId (dispatch a s) = (case a of SetHost h \<Rightarrow> Some h | _ \<Rightarrow> hostId s)"
  by (cases a)
    (auto simp: dispatch_def Let_def in_sync_def fold_sync_room split: option.splits)

lemma store_dispatch_app [simp]: "app (store_dispatch a c) = dispatch a (app c)"
  by (simp add: store_dispatch_def)

lemma sendMessage_app [simp]: "app (sendMessage ty payload c) = app c"
  by (simp add: sendMessage_def)

lemma join_requests_app [simp]: "app (join_requests p c) = app c"
  by (simp add: join_requests_def Let_def split: option.splits)

subsection \<open>Turn authority\<close>



lemma mark_game_started_flags:
  "preserveConnection (service (mark_game_started c)) \<and> isNavigating (service (mark_game_started c))"
  by (simp add: mark_game_started_def store_dispatch_def)







subsection \<open>Host election on join\<close>

lemma fold_host_updates_hostId:
  "hostId (app (fold (\<lambda>kv c'. if P kv then store_dispatch (UpdatePlayer (fst kv) (F kv)) c' else c') kvs c))
     = hostId (app c)"
  by (induction kvs arbitrary: c) (simp_all add: dispatch_hostId)

lemma updatePlayersHostStatus_hostId:
  "hostId (app (updatePlayersHostStatus h skipBroadcast c))
     = (if truthy_str h then h else hostId (app c))"
  by (auto simp: updatePlayersHostStatus_def Let_def fold_host_updates_hostId dispatch_hostId
      truthy_str_def str_of_def split: option.splits)

lemma fold_resync_hostId:
  "hostId (app (fold (\<lambda>p c'. if player_id p = [] then c'
        else store_dispatch (AddPlayer (player_id p) (F p)) c') ps c)) = hostId (app c)"
  by (induction ps arbitrary: c) (simp_all add: dispatch_hostId)

lemma syncPlayerDataBetweenStores_hostId:
  "hostId (app (syncPlayerDataBetweenStores c)) = hostId (app c)"
  by (simp add: syncPlayerDataBetweenStores_def Let_def dispatch_hostId fold_resync_hostId)

lemma join_existing_hostId:
  "hostId (app (fst (join_existing p e (hostId (app c)) c)))
     = (if isHost p = Some True then Some (player_id p) else hostId (app c))"
  by (simp add: join_existing_def Let_def dispatch_hostId)

lemma join_new_hostId:
  "hostId (app (fst (join_new p ex (hostId (app c)) c)))
     = (if isHost p = Some True then Some (player_id p)
        else if truthy_str (hostId (app c)) then hostId (app c)
        else if ex = [] then Some (player_id p)
        else hostId (app c))"
  by (auto simp: join_new_def Let_def dispatch_hostId syncPlayerDataBetweenStores_hostId
      updatePlayersHostStatus_hostId truthy_str_def)

lemma handlePlayerJoined_host_claim:
  assumes "player_id p \<noteq> []" and "isHost p = Some True"
  shows "hostId (app (fst (handlePlayerJoined (Some p) c))) = Some (player_id p)"
proof -
  have "hostId (app (join_requests p c)) = hostId (app c)" by simp
  then show ?thesis
    using assms join_existing_hostId [of p _ "join_requests p c"]
      join_new_hostId [of p _ "join_requests p c"]
    by (simp add: handlePlayerJoined_def Let_def split: option.splits)
qed

lemma handlePlayerJoined_no_claim:
  assumes "isHost p \<noteq> Some True" and "truthy_str (hostId (app c))"
  shows "hostId (app (fst (handlePlayerJoined (Some p) c))) = hostId (app c)"
proof -
  have "hostId (app (join_requests p c)) = hostId (app c)" by simp
  then show ?thesis
    using assms join_existing_hostId [of p _ "join_requests p c"]
      join_new_hostId [of p _ "join_requests p c"]
    by (simp add: handlePlayerJoined_def Let_def split: option.splits)
qed

text \<open>
  C4, as the code has it. A \<^verbatim>\<open>player_joined\<close> message with a player id and an
  explicit host claim is always honoured: afterwards \<open>hostId\<close> is the claimant's id,
  whether or not another host existed. A join without a host claim leaves an existing
  \<open>hostId\<close> unchanged.
\<close>

theorem host_claim_always_honoured:
  "(player_id p \<noteq> [] \<and> isHost p = Some True \<longrightarrow>
      hostId (app (fst (handlePlayerJoined (Some p) c))) = Some (player_id p))
   \<and> (isHost p \<noteq> Some True \<and> truthy_str (hostId (app c)) \<longrightarrow>
      hostId (app (fst (handlePlayerJoined (Some p) c))) = hostId (app c))"
  using handlePlayerJoined_host_claim [of p c] handlePlayerJoined_no_claim [of p c]
  by blast

theorem host_claim_always_honoured_witness:
  "hostId (app (fst (handlePlayerJoined (Some bob_join_as_host) initial_client))) = Some ''p2''
   \<and> hostId (app (fst (handlePlayerJoined (Some alice_renamed) room_with_alice))) = Some ''p1''"
proof -
  have b: "player_id bob_join_as_host \<noteq> [] \<and> isHost bob_join_as_host = Some True"
    "player_id bob_join_as_host = ''p2''"
    by (simp_all add: bob_join_as_host_def blank_player_def)
  have a: "isHost alice_renamed \<noteq> Some True"
    by (simp add: alice_renamed_def blank_player_def)
  have h: "hostId (app room_with_alice) = Some ''p1''"
    by code_simp
  then have t: "truthy_str (hostId (app room_with_alice))"
    by (simp add: truthy_str_def)
  from host_claim_always_honoured [of bob_join_as_host initial_client] b
  have 1: "hostId (app (fst (handlePlayerJoined (Some bob_join_as_host) initial_client))) = Some ''p2''"
    by simp
  from host_claim_always_honoured [of alice_renamed room_with_alice] a t h
  have 2: "hostId (app (fst (handlePlayerJoined (Some alice_renamed) room_with_alice))) = Some ''p1''"
    by simp
  from 1 2 show ?thesis by simp
qed

text \<open>
  C4 as stated fails when a different host exists: \<open>p1\<close> is the host, \<open>p2\<close> joins with
  \<^verbatim>\<open>isHost: true\<close>, and \<open>hostId\<close> becomes \<open>p2\<close>.
\<close>

theorem host_claim_counterexample:
  "hostId (app room_with_alice) = Some ''p1''
   \<and> isHost bob_join_as_host = Some True
   \<and> hostId (app (fst (handlePlayerJoined (Some bob_join_as_host) room_with_alice))) = Some ''p2''"
  by code_simp

subsection \<open>Merging player data on join\<close>

lemma join_updates_name:
  assumes "truthy_str (name p)" and "name existingPlayer \<noteq> name p"
  shows "join_needs_update existingPlayer p h" and "name (join_updates existingPlayer p h q) = name p"
  using assms by (simp_all add: join_needs_update_def join_updates_def Let_def)

text \<open>
  C7 at the failing input. Player \<open>p1\<close> is stored under the name Alice; a second
  \<^verbatim>\<open>player_joined\<close> for \<open>p1\<close> carries the non-empty name Alicia. The handler finds the
  change, throws the \<^verbatim>\<open>ReferenceError\<close> before it dispatches \<^verbatim>\<open>updatePlayer\<close>, and
  the stored name stays Alice in both slices.
\<close>

theorem join_update_throws:
  "name alice_renamed = Some ''Alicia''
   \<and> map (\<lambda>kv. name (snd kv)) (playerSlice_players (app room_with_alice)) = [Some ''Alice'']
   \<and> snd (handlePlayerJoined (Some alice_renamed) room_with_alice)
       = Some (ReferenceError ''data is not defined'')
   \<and> map (\<lambda>kv. name (snd kv))
       (playerSlice_players (app (fst (handlePlayerJoined (Some alice_renamed) room_with_alice))))
       = [Some ''Alice'']
   \<and> map name
       (gameSlice_players (app (fst (handlePlayerJoined (Some alice_renamed) room_with_alice))))
       = [Some ''Alice'']"
  by code_simp

subsection \<open>Roster consistency\<close>

lemma reduce_syncInProgress [simp]: "syncInProgress (reduce a s) = syncInProgress s"
  by (cases a) (auto split: option.splits)

lemma reduce_SetPlayers_playerSlice [simp]:
  "playerSlice_players (reduce (SetPlayers ps b) s) = playerSlice_players s"
  by simp











subsection \<open>Merging player data in the middleware\<close>

text \<open>
  The sibling merge, in the \<^verbatim>\<open>game/setPlayers\<close> case of the middleware, does follow
  the policy for cosmetic fields: a non-empty incoming name or colour replaces the
  stored one, an empty one keeps the stored one, and the token is never left blank.
\<close>

lemma merge_updates_cosmetic:
  "name (merge_updates p e q) = (if truthy_str (name p) then name p else name e)"
  "truthy_str (color p) \<Longrightarrow> color (merge_updates p e q) = color p"
  "\<not> truthy_str (color p) \<Longrightarrow> truthy_str (color e) \<Longrightarrow> color (merge_updates p e q) = color e"
  "truthy_str (token p) \<Longrightarrow> token (merge_updates p e q) = token p"
  "truthy_str (token (merge_updates p e q))"
  by (auto simp: merge_updates_def or_str_def truthy_str_def bust_def split: option.splits)

subsection \<open>Coalesced frames\<close>









lemma split_boundary_nonempty: "split_boundary s \<noteq> []"
  by (induction s rule: split_boundary.induct) (auto split: list.splits)








lemma js_trim_unicode:
  "js_trim ([0xFEFF, 0xA0, 0x20] @ pong_text @ [0x2028, 0x3000, 0x0A]) = pong_text"
  by code_simp






















end
